theory Spec2Isabelle
  imports Main "HOL-Library.Multiset"
begin

section \<open>Domain entities (internal/domain/entity/issue.go)\<close>

text \<open>
  \<open>IssueType\<close> is a Go string type with two named constants; a freshly built issue
  carries the zero value (the empty string), here \<open>IssueTypeNone\<close>.
\<close>

datatype IssueType = IssueTypeObjective | IssueTypeKeyResult | IssueTypeNone

record Issue =
  Number :: int
  Title :: string
  URL :: string
  Type :: IssueType
  Body :: string
  State :: string
  Labels :: "string list"

datatype WeeklyUpdateStatus =
    StatusOnTrack
  | StatusCaution
  | StatusDelayed
  | StatusAtRisk
  | StatusBlocked
  | StatusCompleted
  | StatusUnknown

record WeeklyUpdate =
  Date :: string
  Content :: string
  Author :: string
  Status :: WeeklyUpdateStatus

text \<open>
  \<open>IssueWithUpdates\<close> nests itself through \<open>ChildIssues\<close>, so it is a datatype with
  selectors instead of a record. \<open>LatestUpdate\<close> is a pointer that may be nil.
\<close>

datatype IssueWithUpdates =
  IssueWithUpdates
    (Issue: Issue)
    (LatestUpdate: "WeeklyUpdate option")
    (AllUpdates: "WeeklyUpdate list")
    (ChildIssues: "IssueWithUpdates list")

definition IsObjective :: "Issue \<Rightarrow> bool" where
  "IsObjective i = (Type i = IssueTypeObjective)"

definition IsKeyResult :: "Issue \<Rightarrow> bool" where
  "IsKeyResult i = (Type i = IssueTypeKeyResult)"

definition GetLatestUpdateStatus :: "IssueWithUpdates \<Rightarrow> WeeklyUpdateStatus" where
  "GetLatestUpdateStatus i =
     (case LatestUpdate i of Some u \<Rightarrow> Status u | None \<Rightarrow> StatusUnknown)"

definition GetActualStatus :: "IssueWithUpdates \<Rightarrow> WeeklyUpdateStatus" where
  "GetActualStatus i =
     (let updateStatus = GetLatestUpdateStatus i in
      if State (Issue i) = ''closed'' then StatusCompleted
      else if updateStatus = StatusCompleted \<and> State (Issue i) = ''open'' then StatusOnTrack
      else updateStatus)"

text \<open>
  The \<open>for _, update := range i.AllUpdates\<close> loop of \<open>GetKRStatus\<close>: it returns at the
  first update whose status is not unknown, and falls through (\<open>None\<close>) otherwise.
\<close>

fun scanUpdates :: "string \<Rightarrow> WeeklyUpdate list \<Rightarrow> WeeklyUpdateStatus option" where
  "scanUpdates st [] = None"
| "scanUpdates st (update # rest) =
     (if Status update \<noteq> StatusUnknown then
        (if Status update = StatusCompleted \<and> st = ''open'' then Some StatusOnTrack
         else Some (Status update))
      else scanUpdates st rest)"

definition GetKRStatus :: "IssueWithUpdates \<Rightarrow> WeeklyUpdateStatus" where
  "GetKRStatus i =
     (if \<not> IsKeyResult (Issue i) then GetActualStatus i
      else if State (Issue i) = ''closed'' then StatusCompleted
      else case scanUpdates (State (Issue i)) (AllUpdates i) of
             Some s \<Rightarrow> s
           | None \<Rightarrow>
               (let latestStatus = GetLatestUpdateStatus i in
                if latestStatus \<noteq> StatusUnknown then
                  (if latestStatus = StatusCompleted \<and> State (Issue i) = ''open''
                   then StatusOnTrack else latestStatus)
                else StatusUnknown))"

text \<open>The seven counters of \<open>GetObjectiveStatus\<close> and its counting loop.\<close>

record StatusCounts =
  completed :: nat
  blocked :: nat
  delayed :: nat
  atRisk :: nat
  caution :: nat
  onTrack :: nat
  unknown :: nat

definition zeroCounts :: StatusCounts where
  "zeroCounts = \<lparr>completed = 0, blocked = 0, delayed = 0, atRisk = 0,
                 caution = 0, onTrack = 0, unknown = 0\<rparr>"

fun countOne :: "StatusCounts \<Rightarrow> WeeklyUpdateStatus \<Rightarrow> StatusCounts" where
  "countOne c StatusCompleted = c\<lparr>completed := completed c + 1\<rparr>"
| "countOne c StatusBlocked = c\<lparr>blocked := blocked c + 1\<rparr>"
| "countOne c StatusDelayed = c\<lparr>delayed := delayed c + 1\<rparr>"
| "countOne c StatusAtRisk = c\<lparr>atRisk := atRisk c + 1\<rparr>"
| "countOne c StatusCaution = c\<lparr>caution := caution c + 1\<rparr>"
| "countOne c StatusOnTrack = c\<lparr>onTrack := onTrack c + 1\<rparr>"
| "countOne c StatusUnknown = c\<lparr>unknown := unknown c + 1\<rparr>"

fun countKRs :: "StatusCounts \<Rightarrow> IssueWithUpdates list \<Rightarrow> StatusCounts" where
  "countKRs c [] = c"
| "countKRs c (kr # krs) = countKRs (countOne c (GetKRStatus kr)) krs"

definition GetObjectiveStatus :: "IssueWithUpdates \<Rightarrow> WeeklyUpdateStatus" where
  "GetObjectiveStatus i =
     (if \<not> IsObjective (Issue i) \<or> length (ChildIssues i) = 0 then GetActualStatus i
      else
        let c = countKRs zeroCounts (ChildIssues i);
            totalKRs = length (ChildIssues i)
        in if blocked c > 0 then StatusBlocked
           else if delayed c > 0 then StatusDelayed
           else if atRisk c > 0 then StatusAtRisk
           else if caution c > 0 then StatusCaution
           else if completed c = totalKRs then StatusCompleted
           else if completed c \<ge> totalKRs div 2 then StatusOnTrack
           else if onTrack c > 0 then StatusOnTrack
           else StatusUnknown)"

text \<open>
  The resolution of an objective's status as the specification words it, over the
  statuses of the children: strict priority, first match wins, with the majority rule
  "Completed-count at least ceil(total/2)". It is kept apart from \<open>GetObjectiveStatus\<close>,
  which is the code, so that the two can be compared.
\<close>

definition countCompleted :: "WeeklyUpdateStatus list \<Rightarrow> nat" where
  "countCompleted ss = length (filter (\<lambda>s. s = StatusCompleted) ss)"

definition specObjectiveResolution :: "WeeklyUpdateStatus list \<Rightarrow> WeeklyUpdateStatus" where
  "specObjectiveResolution ss =
     (if StatusBlocked \<in> set ss then StatusBlocked
      else if StatusDelayed \<in> set ss then StatusDelayed
      else if StatusAtRisk \<in> set ss then StatusAtRisk
      else if StatusCaution \<in> set ss then StatusCaution
      else if list_all (\<lambda>s. s = StatusCompleted) ss then StatusCompleted
      else if countCompleted ss \<ge> (length ss + 1) div 2 then StatusOnTrack
      else if StatusOnTrack \<in> set ss then StatusOnTrack
      else StatusUnknown)"

text \<open>
  The data model keeps the latest update as the head of the newest-first update list;
  \<open>latestOf\<close> is that head, as \<open>processObjectiveWithChildren\<close> sets it.
\<close>

definition latestOf :: "WeeklyUpdate list \<Rightarrow> WeeklyUpdate option" where
  "latestOf updates = (case updates of [] \<Rightarrow> None | u # _ \<Rightarrow> Some u)"

text \<open>The open/closed reconciliation of a detected status, as the specification words it.\<close>

definition specKeyResultStatus :: "string \<Rightarrow> WeeklyUpdate list \<Rightarrow> WeeklyUpdateStatus" where
  "specKeyResultStatus st updates =
     (if st = ''closed'' then StatusCompleted
      else case find (\<lambda>u. Status u \<noteq> StatusUnknown) updates of
             Some u \<Rightarrow> (if Status u = StatusCompleted \<and> st = ''open'' then StatusOnTrack
                        else Status u)
           | None \<Rightarrow> StatusUnknown)"

text \<open>Concrete issues used to run the status functions.\<close>

definition mkIssue :: "int \<Rightarrow> IssueType \<Rightarrow> string \<Rightarrow> Issue" where
  "mkIssue n ty st =
     \<lparr>Number = n, Title = ''issue'', URL = ''https://github.com/o/r/issues/1'',
      Type = ty, Body = [], State = st, Labels = []\<rparr>"

definition mkUpdate :: "string \<Rightarrow> WeeklyUpdateStatus \<Rightarrow> WeeklyUpdate" where
  "mkUpdate d s = \<lparr>Date = d, Content = ''weekly update'', Author = ''dev'', Status = s\<rparr>"

definition leafIssue :: "int \<Rightarrow> IssueType \<Rightarrow> string \<Rightarrow> WeeklyUpdate list \<Rightarrow> IssueWithUpdates" where
  "leafIssue n ty st updates = IssueWithUpdates (mkIssue n ty st) (latestOf updates) updates []"

definition oneOfThreeCompleted :: IssueWithUpdates where
  "oneOfThreeCompleted =
     IssueWithUpdates (mkIssue 1 IssueTypeObjective ''open'') None []
       [leafIssue 2 IssueTypeKeyResult ''closed'' [],
        leafIssue 3 IssueTypeKeyResult ''open'' [],
        leafIssue 4 IssueTypeKeyResult ''open'' []]"

definition singleUnknownChild :: IssueWithUpdates where
  "singleUnknownChild =
     IssueWithUpdates (mkIssue 1 IssueTypeObjective ''open'') None []
       [leafIssue 2 IssueTypeKeyResult ''open'' []]"

definition objectiveWithLateStatus :: IssueWithUpdates where
  "objectiveWithLateStatus =
     leafIssue 7 IssueTypeObjective ''open''
       [mkUpdate ''2025-07-09'' StatusUnknown, mkUpdate ''2025-07-01'' StatusBlocked]"

definition krWithLateStatus :: IssueWithUpdates where
  "krWithLateStatus =
     leafIssue 8 IssueTypeKeyResult ''open''
       [mkUpdate ''2025-07-09'' StatusUnknown, mkUpdate ''2025-07-01'' StatusCompleted]"

definition childlessObjective :: IssueWithUpdates where
  "childlessObjective =
     leafIssue 5 IssueTypeObjective ''open'' [mkUpdate ''2025-07-09'' StatusCompleted]"

section \<open>Go strings\<close>

text \<open>
  A Go string is a sequence of bytes, here a list of 8-bit characters.
  \<open>strings.Contains\<close> is byte-wise substring search; the empty string is contained in
  every string.
\<close>

definition HasPrefix :: "string \<Rightarrow> string \<Rightarrow> bool" where
  "HasPrefix s p = (take (length p) s = p)"

fun Contains :: "string \<Rightarrow> string \<Rightarrow> bool" where
  "Contains [] substr = (substr = [])"
| "Contains (c # cs) substr = (HasPrefix (c # cs) substr \<or> Contains cs substr)"

definition isUpperASCII :: "char \<Rightarrow> bool" where
  "isUpperASCII c = (65 \<le> (of_char c :: nat) \<and> (of_char c :: nat) \<le> 90)"

definition lowerByte :: "char \<Rightarrow> char" where
  "lowerByte c = (if isUpperASCII c then char_of ((of_char c :: nat) + 32) else c)"

definition isASCII :: "string \<Rightarrow> bool" where
  "isASCII s = list_all (\<lambda>c. (of_char c :: nat) < 128) s"

text \<open>
  \<open>strings.ToLower\<close> of the standard library: a string of ASCII bytes only is lowered
  byte by byte; any other string goes through the Unicode case tables
  (\<open>strings.Map(unicode.ToLower, s)\<close>), which are not part of this repository and are
  the parameter \<open>mapLower\<close>.
\<close>

definition ToLower :: "(string \<Rightarrow> string) \<Rightarrow> string \<Rightarrow> string" where
  "ToLower mapLower s = (if isASCII s then map lowerByte s else mapLower s)"

text \<open>
  On a string whose non-ASCII runes have no lower-case mapping the Unicode tables change
  the ASCII letters only; \<open>lowerCaseless\<close> is \<open>mapLower\<close> for such strings.
\<close>

definition lowerCaseless :: "string \<Rightarrow> string" where
  "lowerCaseless s = map lowerByte s"

section \<open>Status detection\<close>

subsection \<open>The adapter (internal/adapters/github/repository.go)\<close>

text \<open>
  The glyph literals, byte for byte as the source file holds them between the quotes of
  each \<open>strings.Contains\<close> call.
\<close>

definition redGlyph :: string where
  "redGlyph = [CHR 0xC4, CHR 0x9F, CHR 0xC5, CHR 0xB8, CHR 0xE2, CHR 0x80, CHR 0x9D, CHR 0xC2, CHR 0xB4]"

definition noEntryGlyph :: string where
  "noEntryGlyph = [CHR 0xC4, CHR 0x9F, CHR 0xC5, CHR 0xB8, CHR 0xC5, CHR 0xA1, CHR 0xC2, CHR 0xAB]"

definition yellowGlyph :: string where
  "yellowGlyph = [CHR 0xC4, CHR 0x9F, CHR 0xC5, CHR 0xB8, CHR 0xC5, CHR 0xB8, CHR 0xC2, CHR 0xA1]"

definition warningGlyph :: string where
  "warningGlyph = [CHR 0xC3, CHR 0xA2, CHR 0xC5, CHR 0xA1, CHR 0xC2, CHR 0xA0, CHR 0xC3, CHR 0xAF, CHR 0xC2, CHR 0xB8]"

definition greenGlyph :: string where
  "greenGlyph = [CHR 0xC4, CHR 0x9F, CHR 0xC5, CHR 0xB8, CHR 0xC5, CHR 0xB8, CHR 0xC2, CHR 0xA2]"

definition checkGlyph :: string where
  "checkGlyph = [CHR 0xC3, CHR 0xA2, CHR 0xC5, CHR 0x93, CHR 0xE2, CHR 0x80, CHR 0xA6]"

text \<open>The conditions of the six rules, in the order of the source.\<close>

definition completionIndicator :: "string \<Rightarrow> bool" where
  "completionIndicator contentLower =
     (Contains contentLower ''completed'' \<or> Contains contentLower ''done''
      \<or> Contains contentLower ''finished'')"

definition blockedIndicator :: "string \<Rightarrow> string \<Rightarrow> bool" where
  "blockedIndicator content contentLower =
     (Contains content redGlyph \<or> Contains content noEntryGlyph
      \<or> Contains contentLower ''red'' \<or> Contains contentLower ''blocked''
      \<or> Contains contentLower ''stuck'' \<or> Contains contentLower ''cannot'')"

definition delayedIndicator :: "string \<Rightarrow> string \<Rightarrow> bool" where
  "delayedIndicator content contentLower =
     (Contains content redGlyph
        \<and> (Contains contentLower ''delay'' \<or> Contains contentLower ''behind'')
      \<or> Contains contentLower ''delayed'')"

definition cautionIndicator :: "string \<Rightarrow> string \<Rightarrow> bool" where
  "cautionIndicator content contentLower =
     (Contains content yellowGlyph \<or> Contains content warningGlyph
      \<or> Contains contentLower ''yellow'' \<or> Contains contentLower ''caution''
      \<or> Contains contentLower ''warning'')"

definition atRiskIndicator :: "string \<Rightarrow> bool" where
  "atRiskIndicator contentLower =
     (Contains contentLower ''at risk'' \<or> Contains contentLower ''at-risk''
      \<or> Contains contentLower ''risk'')"

definition onTrackIndicator :: "string \<Rightarrow> string \<Rightarrow> bool" where
  "onTrackIndicator content contentLower =
     (Contains content greenGlyph \<or> Contains content checkGlyph
      \<or> Contains contentLower ''green'' \<or> Contains contentLower ''on track''
      \<or> Contains contentLower ''on-track'' \<or> Contains contentLower ''progress'')"

definition detectStatusFromContent :: "(string \<Rightarrow> string) \<Rightarrow> string \<Rightarrow> WeeklyUpdateStatus" where
  "detectStatusFromContent mapLower content =
     (let contentLower = ToLower mapLower content in
      if completionIndicator contentLower then StatusCompleted
      else if blockedIndicator content contentLower then StatusBlocked
      else if delayedIndicator content contentLower then StatusDelayed
      else if cautionIndicator content contentLower then StatusCaution
      else if atRiskIndicator contentLower then StatusAtRisk
      else if onTrackIndicator content contentLower then StatusOnTrack
      else StatusUnknown)"




subsection \<open>The domain service (internal/domain/service/okr.go)\<close>

text \<open>The glyph literals of the service, byte for byte as its source file holds them.\<close>

definition svcCheckGlyph :: string where
  "svcCheckGlyph = [CHR 0xC3, CHR 0xA2, CHR 0xC5, CHR 0x93, CHR 0xE2, CHR 0x80, CHR 0xA6]"

definition svcTickGlyph :: string where
  "svcTickGlyph = [CHR 0xC3, CHR 0xA2, CHR 0xC5, CHR 0x93, CHR 0xE2, CHR 0x80, CHR 0x9C]"

definition svcNoEntryGlyph :: string where
  "svcNoEntryGlyph = [CHR 0xC3, CHR 0xB0, CHR 0xC5, CHR 0xB8, CHR 0xC5, CHR 0xA1, CHR 0xC2, CHR 0xAB]"

definition svcCrossGlyph :: string where
  "svcCrossGlyph = [CHR 0xC3, CHR 0xA2, CHR 0xC5, CHR 0x92]"

definition svcWarningGlyph :: string where
  "svcWarningGlyph = [CHR 0xC3, CHR 0xA2, CHR 0xC5, CHR 0xA1, CHR 0xC2, CHR 0xA0, CHR 0xC3, CHR 0xAF, CHR 0xC2, CHR 0xB8]"

definition svcYellowGlyph :: string where
  "svcYellowGlyph = [CHR 0xC3, CHR 0xB0, CHR 0xC5, CHR 0xB8, CHR 0xC5, CHR 0xB8, CHR 0xC2, CHR 0xA1]"

definition svcGreenGlyph :: string where
  "svcGreenGlyph = [CHR 0xC3, CHR 0xB0, CHR 0xC5, CHR 0xB8, CHR 0xC5, CHR 0xB8, CHR 0xC2, CHR 0xA2]"

definition svcCompletionIndicator :: "string \<Rightarrow> bool" where
  "svcCompletionIndicator contentLower =
     (Contains contentLower ''completed'' \<or> Contains contentLower ''done''
      \<or> Contains contentLower ''finished'' \<or> Contains contentLower svcCheckGlyph
      \<or> Contains contentLower svcTickGlyph)"

definition svcBlockedIndicator :: "string \<Rightarrow> bool" where
  "svcBlockedIndicator contentLower =
     (Contains contentLower ''blocked'' \<or> Contains contentLower ''stuck''
      \<or> Contains contentLower ''issue'' \<or> Contains contentLower ''problem''
      \<or> Contains contentLower svcNoEntryGlyph \<or> Contains contentLower svcCrossGlyph)"

definition svcAtRiskIndicator :: "string \<Rightarrow> bool" where
  "svcAtRiskIndicator contentLower =
     (Contains contentLower ''behind'' \<or> Contains contentLower ''delayed''
      \<or> Contains contentLower ''risk'' \<or> Contains contentLower ''concern''
      \<or> Contains contentLower svcWarningGlyph \<or> Contains contentLower svcYellowGlyph)"

definition svcOnTrackIndicator :: "string \<Rightarrow> bool" where
  "svcOnTrackIndicator contentLower =
     (Contains contentLower ''on track'' \<or> Contains contentLower ''progress''
      \<or> Contains contentLower ''good'' \<or> Contains contentLower svcGreenGlyph
      \<or> Contains contentLower svcCheckGlyph)"

definition DetectStatusFromContent :: "(string \<Rightarrow> string) \<Rightarrow> string \<Rightarrow> WeeklyUpdateStatus" where
  "DetectStatusFromContent mapLower content =
     (let contentLower = ToLower mapLower content in
      if svcCompletionIndicator contentLower then StatusCompleted
      else if svcBlockedIndicator contentLower then StatusBlocked
      else if svcAtRiskIndicator contentLower then StatusAtRisk
      else if svcOnTrackIndicator contentLower then StatusOnTrack
      else StatusOnTrack)"

section \<open>The fetch layer (BridgeClient)\<close>

text \<open>
  The counters of \<open>ClientStats\<close>. The time stamps of the Go struct (last call, quota
  reset, processing time) are wall-clock values and are left out; the mutex only guards
  the counters.
\<close>

record ClientStats =
  APICallsCount :: int
  CacheHitsCount :: int
  ErrorsCount :: int
  RetryCount :: int
  RateLimitHits :: int
  RemainingQuota :: int

definition IncrementAPICall :: "ClientStats \<Rightarrow> ClientStats" where
  "IncrementAPICall s = s\<lparr>APICallsCount := APICallsCount s + 1\<rparr>"

definition IncrementError :: "ClientStats \<Rightarrow> ClientStats" where
  "IncrementError s = s\<lparr>ErrorsCount := ErrorsCount s + 1\<rparr>"

definition IncrementRetry :: "ClientStats \<Rightarrow> ClientStats" where
  "IncrementRetry s = s\<lparr>RetryCount := RetryCount s + 1\<rparr>"

definition IncrementCacheHit :: "ClientStats \<Rightarrow> ClientStats" where
  "IncrementCacheHit s = s\<lparr>CacheHitsCount := CacheHitsCount s + 1\<rparr>"

definition IncrementRateLimitHit :: "ClientStats \<Rightarrow> ClientStats" where
  "IncrementRateLimitHit s = s\<lparr>RateLimitHits := RateLimitHits s + 1\<rparr>"

definition UpdateQuota :: "int \<Rightarrow> ClientStats \<Rightarrow> ClientStats" where
  "UpdateQuota remaining s = s\<lparr>RemainingQuota := remaining\<rparr>"

text \<open>
  A Go \<open>error\<close> returned by an operation is modelled by its message; \<open>None\<close> is \<open>nil\<close>.
  \<open>retryWithBackoff\<close> returns the operation's error, or its own
  "operation failed after N retries"; the service reports
  "could not extract owner/repo from issue #N".
\<close>

datatype error = Err string | ErrFailedAfterRetries int | ErrNoOwnerRepo int

definition retryableErrors :: "string list" where
  "retryableErrors =
     [''timeout'', ''connection reset'', ''connection refused'', ''temporary failure'',
      ''rate limit'', ''server error'', ''503'', ''502'', ''500'']"

fun containsAny :: "string \<Rightarrow> string list \<Rightarrow> bool" where
  "containsAny errorStr [] = False"
| "containsAny errorStr (retryable # rest) =
     (if Contains errorStr retryable then True else containsAny errorStr rest)"

definition isRetryableError :: "(string \<Rightarrow> string) \<Rightarrow> string option \<Rightarrow> bool" where
  "isRetryableError mapLower err =
     (case err of
        None \<Rightarrow> False
      | Some msg \<Rightarrow> containsAny (ToLower mapLower msg) retryableErrors)"

text \<open>
  An operation is a closure over the client and its caller's variables: it reads and
  updates the statistics and the rest of the world \<open>'w\<close>, and returns an error or nil;
  \<open>None\<close> stands for an operation that does not return. The loop of
  \<open>retryWithBackoff\<close> runs from attempt \<open>i\<close>; the sleep of \<open>i * i\<close> seconds before a
  retry is real time and has no counterpart here.
\<close>

type_synonym 'w operation = "ClientStats \<Rightarrow> 'w \<Rightarrow> (string option \<times> ClientStats \<times> 'w) option"

function retryFrom ::
  "(string \<Rightarrow> string) \<Rightarrow> int \<Rightarrow> 'w operation \<Rightarrow> int \<Rightarrow> ClientStats \<Rightarrow> 'w
     \<Rightarrow> (error option \<times> ClientStats \<times> 'w) option" where
  "retryFrom mapLower maxRetries operation i st w =
     (if i < maxRetries then
        (case operation (if i > 0 then IncrementRetry st else st) w of
           None \<Rightarrow> None
         | Some (None, st', w') \<Rightarrow> Some (None, st', w')
         | Some (Some err, st', w') \<Rightarrow>
             (if i = maxRetries - 1 \<or> \<not> isRetryableError mapLower (Some err)
              then Some (Some (Err err), IncrementError st', w')
              else retryFrom mapLower maxRetries operation (i + 1) st' w'))
      else Some (Some (ErrFailedAfterRetries maxRetries), st, w))"
  by pat_completeness auto
termination
  by (relation "measure (\<lambda>(mapLower, maxRetries, operation, i, st, w). nat (maxRetries - i))")
     auto

definition retryWithBackoff ::
  "(string \<Rightarrow> string) \<Rightarrow> int \<Rightarrow> 'w operation \<Rightarrow> ClientStats \<Rightarrow> 'w
     \<Rightarrow> (error option \<times> ClientStats \<times> 'w) option" where
  "retryWithBackoff mapLower maxRetries operation st w =
     retryFrom mapLower maxRetries operation 0 st w"


text \<open>
  The part of the configuration the fetch layer reads (\<open>config.GitHub\<close> and
  \<open>config.Cache\<close>); the client's \<open>config\<close> pointer may be nil.
\<close>

record Config =
  PageSize :: int
  MaxIssuesLimit :: int
  MaxRetries :: int
  IssuesTTLMin :: int

definition configuredPageSize :: "Config option \<Rightarrow> int" where
  "configuredPageSize config =
     (case config of Some c \<Rightarrow> (if PageSize c > 0 then PageSize c else 100) | None \<Rightarrow> 100)"

definition configuredMaxIssues :: "Config option \<Rightarrow> int" where
  "configuredMaxIssues config =
     (case config of
        Some c \<Rightarrow> (if MaxIssuesLimit c > 0 then MaxIssuesLimit c else 10000)
      | None \<Rightarrow> 10000)"

definition configuredMaxRetries :: "Config option \<Rightarrow> int" where
  "configuredMaxRetries config =
     (case config of Some c \<Rightarrow> (if MaxRetries c > 0 then MaxRetries c else 3) | None \<Rightarrow> 3)"

text \<open>
  One page of search results as the client library hands it over: the issues, the number
  of the next page (0 when there is none), the status code, and the remaining quota when
  the response carries that header as a number.
\<close>

record 'i SearchPage =
  Issues :: "'i list"
  NextPage :: int
  StatusCode :: int
  Remaining :: "int option"

text \<open>
  The remote side: the rate limiter's wait (an error when the context ends first), the
  search endpoint (query, page size, page number; page 0 is the first page) and the
  clock, all over the state \<open>'w\<close> of the outside world.
\<close>

record ('i, 'w) Remote =
  waitForRateLimit :: "'w \<Rightarrow> string option \<times> 'w"
  searchIssues :: "string \<Rightarrow> int \<Rightarrow> int \<Rightarrow> 'w \<Rightarrow> (string + 'i SearchPage) \<times> 'w"
  timeNow :: "'w \<Rightarrow> int"

definition updateRateLimitStats :: "'i SearchPage \<Rightarrow> ClientStats \<Rightarrow> ClientStats" where
  "updateRateLimitStats resp st =
     (let st1 = (case Remaining resp of Some val \<Rightarrow> UpdateQuota val st | None \<Rightarrow> st)
      in if StatusCode resp = 429 then IncrementRateLimitHit st1 else st1)"

text \<open>
  The pagination loop of the search operation. \<open>allIssues\<close> is the variable of
  \<open>fetchIssuesBySearchQuery\<close> that the closure appends to. The Go loop has no bound of
  its own, so the model counts iterations down from \<open>fuel\<close> and answers \<open>None\<close> when
  the loop is still running after that many pages.
\<close>

fun searchPages ::
  "nat \<Rightarrow> ('i, 'w) Remote \<Rightarrow> Config option \<Rightarrow> string \<Rightarrow> int \<Rightarrow> int
     \<Rightarrow> ClientStats \<Rightarrow> 'i list \<times> 'w \<Rightarrow> (string option \<times> ClientStats \<times> 'i list \<times> 'w) option" where
  "searchPages 0 remote config query pageSize page st (allIssues, w) = None"
| "searchPages (Suc fuel) remote config query pageSize page st (allIssues, w) =
     (case waitForRateLimit remote w of
        (Some err, w1) \<Rightarrow> Some (Some (''rate limit error: '' @ err), st, allIssues, w1)
      | (None, w1) \<Rightarrow>
          (case searchIssues remote query pageSize page w1 of
             (Inl err, w2) \<Rightarrow>
               Some (Some (''error searching issues: '' @ err), IncrementAPICall st, allIssues, w2)
           | (Inr result, w2) \<Rightarrow>
               (let st2 = updateRateLimitStats result (IncrementAPICall st);
                    allIssues2 = allIssues @ Issues result
                in if NextPage result = 0 then Some (None, st2, allIssues2, w2)
                   else if int (length allIssues2) > configuredMaxIssues config
                   then Some (None, st2, allIssues2, w2)
                   else searchPages fuel remote config query pageSize (NextPage result)
                          st2 (allIssues2, w2))))"

definition searchOperation ::
  "nat \<Rightarrow> ('i, 'w) Remote \<Rightarrow> Config option \<Rightarrow> string \<Rightarrow> ('i list \<times> 'w) operation" where
  "searchOperation fuel remote config query st aw =
     searchPages fuel remote config query (configuredPageSize config) 0 st aw"

text \<open>
  The response cache: entries with an expiry instant; a lookup that finds an expired
  entry removes it. A cached value is an issue list or something else (comment lists
  live in the same cache under other keys).
\<close>

datatype 'i cached = CachedIssues "'i list" | CachedOther

record 'i CacheEntry =
  Data :: "'i cached"
  ExpiresAt :: int

type_synonym 'i APICache = "string \<rightharpoonup> 'i CacheEntry"

definition GetFromCache :: "int \<Rightarrow> string \<Rightarrow> 'i APICache \<Rightarrow> 'i cached option \<times> 'i APICache" where
  "GetFromCache now key c =
     (case c key of
        None \<Rightarrow> (None, c)
      | Some entry \<Rightarrow>
          (if now > ExpiresAt entry then (None, c(key := None)) else (Some (Data entry), c)))"

definition SetCache :: "int \<Rightarrow> string \<Rightarrow> 'i cached \<Rightarrow> int \<Rightarrow> 'i APICache \<Rightarrow> 'i APICache" where
  "SetCache now key data ttl c = c(key \<mapsto> \<lparr>Data = data, ExpiresAt = now + ttl\<rparr>)"

definition Minute :: int where
  "Minute = 60000000000"

definition issuesCacheTTL :: "Config option \<Rightarrow> int" where
  "issuesCacheTTL config =
     (case config of
        Some c \<Rightarrow> (if IssuesTTLMin c > 0 then IssuesTTLMin c * Minute else 10 * Minute)
      | None \<Rightarrow> 10 * Minute)"

record 'i BridgeClient =
  stats :: ClientStats
  cache :: "'i APICache option"
  config :: "Config option"

definition searchCacheKey :: "string \<Rightarrow> string \<Rightarrow> string \<Rightarrow> string" where
  "searchCacheKey owner repo searchQuery =
     ''search:'' @ owner @ ''/'' @ repo @ '':'' @ searchQuery"

definition searchQueryText :: "string \<Rightarrow> string \<Rightarrow> string \<Rightarrow> string" where
  "searchQueryText owner repo searchQuery = ''repo:'' @ owner @ ''/'' @ repo @ '' '' @ searchQuery"

text \<open>
  The cache check at the head of \<open>fetchIssuesBySearchQuery\<close>: the cached issue list on
  a hit, and the cache after the lookup.
\<close>

definition lookupIssues ::
  "int \<Rightarrow> string \<Rightarrow> 'i APICache option \<Rightarrow> 'i list option \<times> 'i APICache option" where
  "lookupIssues now key co =
     (case co of
        None \<Rightarrow> (None, None)
      | Some c \<Rightarrow>
          (case GetFromCache now key c of
             (Some (CachedIssues issues), c') \<Rightarrow> (Some issues, Some c')
           | (Some CachedOther, c') \<Rightarrow> (None, Some c')
           | (None, c') \<Rightarrow> (None, Some c')))"

definition fetchIssuesBySearchQuery ::
  "nat \<Rightarrow> (string \<Rightarrow> string) \<Rightarrow> ('i, 'w) Remote \<Rightarrow> string \<Rightarrow> string \<Rightarrow> string
     \<Rightarrow> 'i BridgeClient \<Rightarrow> 'w \<Rightarrow> ((error + 'i list) \<times> 'i BridgeClient \<times> 'w) option" where
  "fetchIssuesBySearchQuery fuel mapLower remote owner repo searchQuery b w =
     (if searchQuery = [] then Some (Inl (Err ''no search query specified''), b, w)
      else
        let cacheKey = searchCacheKey owner repo searchQuery in
        case lookupIssues (timeNow remote w) cacheKey (cache b) of
          (Some issues, cache1) \<Rightarrow>
            Some (Inr issues, b\<lparr>stats := IncrementCacheHit (stats b), cache := cache1\<rparr>, w)
        | (None, cache1) \<Rightarrow>
            (case retryWithBackoff mapLower (configuredMaxRetries (config b))
                    (searchOperation fuel remote (config b) (searchQueryText owner repo searchQuery))
                    (stats b) ([], w) of
               None \<Rightarrow> None
             | Some (Some err, st, allIssues, w') \<Rightarrow>
                 Some (Inl err, b\<lparr>stats := st, cache := cache1\<rparr>, w')
             | Some (None, st, allIssues, w') \<Rightarrow>
                 Some (Inr allIssues,
                       b\<lparr>stats := st,
                         cache := map_option
                           (SetCache (timeNow remote w') cacheKey (CachedIssues allIssues)
                              (issuesCacheTTL (config b))) cache1\<rparr>,
                       w')))"

text \<open>
  A remote with a fixed list of result pages (page \<open>p\<close> of the list is page number
  \<open>p\<close>, 0 and 1 both naming the first), a rate limiter that never fails and a clock
  that stands still. Its world is the number of search calls served.
\<close>

definition pagedRemote :: "'i list list \<Rightarrow> ('i, nat) Remote" where
  "pagedRemote pages =
     \<lparr>waitForRateLimit = (\<lambda>w. (None, w)),
      searchIssues = (\<lambda>query pageSize page w.
         (let p = (if page \<le> 1 then 1 else nat page) in
          if p \<le> length pages
          then (Inr \<lparr>Issues = pages ! (p - 1),
                     NextPage = (if p < length pages then int p + 1 else 0),
                     StatusCode = 200, Remaining = None\<rparr>, Suc w)
          else (Inr \<lparr>Issues = [], NextPage = 0, StatusCode = 200, Remaining = None\<rparr>, Suc w))),
      timeNow = (\<lambda>w. 0)\<rparr>"

definition zeroStats :: ClientStats where
  "zeroStats = \<lparr>APICallsCount = 0, CacheHitsCount = 0, ErrorsCount = 0, RetryCount = 0,
                RateLimitHits = 0, RemainingQuota = 0\<rparr>"

definition cappedClient :: "nat BridgeClient" where
  "cappedClient =
     \<lparr>stats = zeroStats, cache = None,
      config = Some \<lparr>PageSize = 2, MaxIssuesLimit = 2, MaxRetries = 0, IssuesTTLMin = 0\<rparr>\<rparr>"

definition threePages :: "nat list list" where
  "threePages = [[1, 2], [3, 4], [5, 6]]"



section \<open>Regular expressions of the resolver\<close>

text \<open>
  The patterns of the source are sequences of a few kinds of pieces, matched left to
  right: a literal under \<open>(?i)\<close> (\<open>Fold\<close>), a literal matched exactly (\<open>Exact\<close>),
  \<open>\s*\<close> (\<open>Spaces\<close>), \<open>\s+\<close> (\<open>Spaces1\<close>), an optional literal under \<open>(?i)\<close>
  (\<open>Opt\<close>), a character class taken once or more (\<open>Plus\<close>), the same as a capture
  group (\<open>Cap\<close>), or the group \<open>(\d{4}-\d{2}-\d{2})\<close> (\<open>CapDate\<close>). In every
  pattern used here the piece after a repetition or an option starts with a character
  the repetition or option cannot take, so the greedy choice is the only one that can
  lead to a match and no backtracking is needed. \<open>\s\<close> and \<open>\d\<close> are the ASCII
  classes of Go's regexp package. Under \<open>(?i)\<close> the letters \<open>s\<close> and \<open>k\<close> also match
  U+017F and U+212A (bytes C5 BF and E2 84 AA), their simple case folds.
\<close>

datatype cls = NotSlash | Digit

datatype tok =
    Fold string | Exact string | Spaces | Spaces1 | Opt string | Plus cls | Cap cls | CapDate

definition isSpace :: "char \<Rightarrow> bool" where
  "isSpace c = (c \<in> set [CHR 0x09, CHR 0x0A, CHR 0x0C, CHR 0x0D, CHR 0x20])"

definition isDigit :: "char \<Rightarrow> bool" where
  "isDigit c = (48 \<le> (of_char c :: nat) \<and> (of_char c :: nat) \<le> 57)"

fun inClass :: "cls \<Rightarrow> char \<Rightarrow> bool" where
  "inClass NotSlash c = (c \<noteq> CHR ''/'')"
| "inClass Digit c = isDigit c"

fun foldChar :: "char \<Rightarrow> string \<Rightarrow> string option" where
  "foldChar p [] = None"
| "foldChar p (c # cs) =
     (if lowerByte c = p then Some cs
      else if p = CHR ''s'' \<and> c = CHR 0xC5 \<and> take 1 cs = [CHR 0xBF] then Some (drop 1 cs)
      else if p = CHR ''k'' \<and> c = CHR 0xE2 \<and> take 2 cs = [CHR 0x84, CHR 0xAA]
      then Some (drop 2 cs)
      else None)"

fun foldLit :: "string \<Rightarrow> string \<Rightarrow> string option" where
  "foldLit [] s = Some s"
| "foldLit (p # ps) s = (case foldChar p s of None \<Rightarrow> None | Some rest \<Rightarrow> foldLit ps rest)"

definition isDateText :: "string \<Rightarrow> bool" where
  "isDateText d =
     (length d = 10
      \<and> list_all isDigit (take 4 d) \<and> d ! 4 = CHR ''-''
      \<and> list_all isDigit (take 2 (drop 5 d)) \<and> d ! 7 = CHR ''-''
      \<and> list_all isDigit (drop 8 d))"

text \<open>
  \<open>matchToks\<close> matches a pattern at the head of the text and returns the capture
  groups in order; \<open>FindStringSubmatch\<close> tries each start position from the left and
  returns the groups of the first match.
\<close>

fun matchToks :: "tok list \<Rightarrow> string \<Rightarrow> string list \<Rightarrow> string list option" where
  "matchToks [] s caps = Some caps"
| "matchToks (Fold p # ts) s caps =
     (case foldLit p s of None \<Rightarrow> None | Some rest \<Rightarrow> matchToks ts rest caps)"
| "matchToks (Exact p # ts) s caps =
     (if HasPrefix s p then matchToks ts (drop (length p) s) caps else None)"
| "matchToks (Spaces # ts) s caps = matchToks ts (dropWhile isSpace s) caps"
| "matchToks (Spaces1 # ts) s caps =
     (if takeWhile isSpace s = [] then None else matchToks ts (dropWhile isSpace s) caps)"
| "matchToks (Opt p # ts) s caps =
     (case foldLit p s of None \<Rightarrow> matchToks ts s caps | Some rest \<Rightarrow> matchToks ts rest caps)"
| "matchToks (Plus k # ts) s caps =
     (if takeWhile (inClass k) s = [] then None
      else matchToks ts (dropWhile (inClass k) s) caps)"
| "matchToks (Cap k # ts) s caps =
     (if takeWhile (inClass k) s = [] then None
      else matchToks ts (dropWhile (inClass k) s) (caps @ [takeWhile (inClass k) s]))"
| "matchToks (CapDate # ts) s caps =
     (if isDateText (take 10 s) then matchToks ts (drop 10 s) (caps @ [take 10 s]) else None)"

fun FindStringSubmatch :: "tok list \<Rightarrow> string \<Rightarrow> string list option" where
  "FindStringSubmatch ts [] = matchToks ts [] []"
| "FindStringSubmatch ts (c # cs) =
     (case matchToks ts (c # cs) [] of
        Some caps \<Rightarrow> Some caps
      | None \<Rightarrow> FindStringSubmatch ts cs)"

text \<open>
  Under the flag \<open>m\<close> a pattern that begins with \<open>^\<close> can only start at the
  beginning of the text or right after a line feed.
\<close>

fun findAtLineStarts :: "tok list \<Rightarrow> bool \<Rightarrow> string \<Rightarrow> string list option" where
  "findAtLineStarts ts atStart [] = (if atStart then matchToks ts [] [] else None)"
| "findAtLineStarts ts atStart (c # cs) =
     (case (if atStart then matchToks ts (c # cs) [] else None) of
        Some caps \<Rightarrow> Some caps
      | None \<Rightarrow> findAtLineStarts ts (c = CHR 0x0A) cs)"

text \<open>
  \<open>strconv.Atoi\<close> on a string of decimal digits: the value, or an error when it does
  not fit the 64-bit \<open>int\<close>.
\<close>

definition digitValue :: "char \<Rightarrow> int" where
  "digitValue c = int (of_char c) - 48"

definition Atoi :: "string \<Rightarrow> int option" where
  "Atoi ds =
     (let v = foldl (\<lambda>acc c. 10 * acc + digitValue c) 0 ds
      in if ds \<noteq> [] \<and> list_all isDigit ds \<and> v \<le> 9223372036854775807 then Some v else None)"

section \<open>The hierarchy resolver (internal/domain/service/okr.go)\<close>

definition bodyPatterns :: "tok list list" where
  "bodyPatterns =
     [[Fold ''parent'', Spaces, Opt ''issue'', Spaces, Opt '':'', Spaces, Fold ''#'', Cap Digit],
      [Fold ''parent'', Spaces, Opt ''issue'', Spaces, Opt '':'', Spaces,
       Fold ''https://github.com/'', Plus NotSlash, Fold ''/'', Plus NotSlash,
       Fold ''/issues/'', Cap Digit],
      [Fold ''part'', Spaces, Fold ''of'', Spaces, Fold ''#'', Cap Digit],
      [Fold ''child'', Spaces, Fold ''of'', Spaces, Fold ''#'', Cap Digit],
      [Fold ''subtask'', Spaces, Fold ''of'', Spaces, Fold ''#'', Cap Digit],
      [Fold ''depends'', Spaces, Fold ''on'', Spaces, Fold ''#'', Cap Digit],
      [Fold ''relates'', Spaces, Fold ''to'', Spaces, Fold ''#'', Cap Digit],
      [Fold ''blocking'', Spaces, Fold ''#'', Cap Digit],
      [Fold ''blocked'', Spaces, Fold ''by'', Spaces, Fold ''#'', Cap Digit]]"

text \<open>
  The loop over the patterns: the first pattern that matches and whose number converts
  gives the parent; 0 means none.
\<close>

fun firstParent :: "tok list list \<Rightarrow> string \<Rightarrow> int" where
  "firstParent [] textToSearch = 0"
| "firstParent (pattern # rest) textToSearch =
     (case FindStringSubmatch pattern textToSearch of
        Some (digits # others) \<Rightarrow>
          (case Atoi digits of Some parentNum \<Rightarrow> parentNum
                             | None \<Rightarrow> firstParent rest textToSearch)
      | Some [] \<Rightarrow> firstParent rest textToSearch
      | None \<Rightarrow> firstParent rest textToSearch)"

definition extractParentIssueNumber :: "Issue \<Rightarrow> int" where
  "extractParentIssueNumber issue =
     firstParent bodyPatterns (Title issue @ [CHR 0x0A] @ Body issue)"

definition hasParentIssue :: "Issue \<Rightarrow> bool" where
  "hasParentIssue issue = (extractParentIssueNumber issue > 0)"

text \<open>
  The service reaches the remote through the port \<open>GitHubRepository\<close>; these are the
  operations the resolver calls. A failed call is \<open>Inl\<close> with the error's message.
\<close>

record GitHubRepository =
  ExtractOwnerRepoFromIssue :: "Issue \<Rightarrow> string \<times> string"
  FindParentIssue :: "string \<Rightarrow> string \<Rightarrow> int \<Rightarrow> string + int"
  FetchIssueComments :: "string \<Rightarrow> string \<Rightarrow> int \<Rightarrow> string + WeeklyUpdate list"

text \<open>
  The adapter's implementation of the port: owner and repository are read off the
  issue's URL, the relationship lookup always answers 0, and the comments come from
  the remote (the parameter \<open>comments\<close>).
\<close>

definition issueURLPattern :: "tok list" where
  "issueURLPattern =
     [Exact ''https://github.com/'', Cap NotSlash, Exact ''/'', Cap NotSlash,
      Exact ''/issues/'', Plus Digit]"

definition repoExtractOwnerRepoFromIssue :: "Issue \<Rightarrow> string \<times> string" where
  "repoExtractOwnerRepoFromIssue issue =
     (if URL issue = [] then ([], [])
      else case FindStringSubmatch issueURLPattern (URL issue) of
             Some [owner, repo] \<Rightarrow> (owner, repo)
           | _ \<Rightarrow> ([], []))"

definition Repository ::
  "(string \<Rightarrow> string \<Rightarrow> int \<Rightarrow> string + WeeklyUpdate list) \<Rightarrow> GitHubRepository" where
  "Repository comments =
     \<lparr>ExtractOwnerRepoFromIssue = repoExtractOwnerRepoFromIssue,
      FindParentIssue = (\<lambda>owner repo issueNumber. Inr 0),
      FetchIssueComments = comments\<rparr>"

text \<open>
  The issues are shared objects: the slices and the parent-child map hold pointers, and
  the resolver writes the \<open>Type\<close> field through them. A pointer is an address, the
  heap gives the issue at each address.
\<close>

type_synonym ptr = nat

type_synonym heap = "ptr \<Rightarrow> Issue"

type_synonym childMap = "int \<rightharpoonup> ptr list"

definition childrenOf :: "childMap \<Rightarrow> int \<Rightarrow> ptr list" where
  "childrenOf m n = (case m n of None \<Rightarrow> [] | Some ps \<Rightarrow> ps)"

definition HasAllLabels :: "Issue \<Rightarrow> string list \<Rightarrow> bool" where
  "HasAllLabels i requiredLabels =
     (if length requiredLabels = 0 then True
      else let foundLabels = filter (\<lambda>required. required \<in> set (Labels i)) requiredLabels
           in list_all (\<lambda>required. required \<in> set foundLabels) requiredLabels)"

definition filterIssuesByLabels :: "heap \<Rightarrow> ptr list \<Rightarrow> string list \<Rightarrow> ptr list" where
  "filterIssuesByLabels h issues requiredLabels =
     (if length requiredLabels = 0 then issues
      else filter (\<lambda>p. HasAllLabels (h p) requiredLabels) issues)"

text \<open>
  The parent number the loop of \<open>BuildParentChildRelationships\<close> settles on for one
  issue: the textual reference, else the answer of the relationship lookup.
\<close>

definition parentNumberOf :: "GitHubRepository \<Rightarrow> Issue \<Rightarrow> int" where
  "parentNumberOf githubRepo issue =
     (let parentNum = extractParentIssueNumber issue in
      if parentNum = 0 then
        (case ExtractOwnerRepoFromIssue githubRepo issue of
           (owner, repo) \<Rightarrow>
             if owner \<noteq> [] \<and> repo \<noteq> [] then
               (case FindParentIssue githubRepo owner repo (Number issue) of
                  Inr apiParentNum \<Rightarrow> (if apiParentNum > 0 then apiParentNum else parentNum)
                | Inl err \<Rightarrow> parentNum)
             else parentNum)
      else parentNum)"

fun buildRelationships ::
  "GitHubRepository \<Rightarrow> heap \<Rightarrow> ptr list \<Rightarrow> childMap \<Rightarrow> childMap" where
  "buildRelationships githubRepo h [] parentChildMap = parentChildMap"
| "buildRelationships githubRepo h (issue # rest) parentChildMap =
     (let parentNum = parentNumberOf githubRepo (h issue) in
      buildRelationships githubRepo h rest
        (if parentNum > 0
         then parentChildMap(parentNum \<mapsto> childrenOf parentChildMap parentNum @ [issue])
         else parentChildMap))"

definition BuildParentChildRelationships ::
  "GitHubRepository \<Rightarrow> heap \<Rightarrow> ptr list \<Rightarrow> childMap" where
  "BuildParentChildRelationships githubRepo h issues =
     buildRelationships githubRepo h issues Map.empty"

definition setType :: "IssueType \<Rightarrow> ptr \<Rightarrow> heap \<Rightarrow> heap" where
  "setType ty p h = h(p := (h p)\<lparr>Type := ty\<rparr>)"

fun identifyLoop :: "childMap \<Rightarrow> ptr list \<Rightarrow> ptr list \<Rightarrow> heap \<Rightarrow> ptr list \<times> heap" where
  "identifyLoop parentChildMap [] parentIssues h = (parentIssues, h)"
| "identifyLoop parentChildMap (issue # rest) parentIssues h =
     (let hasChildren = length (childrenOf parentChildMap (Number (h issue))) > 0;
          hasParent = hasParentIssue (h issue)
      in if hasChildren \<and> \<not> hasParent
         then identifyLoop parentChildMap rest (parentIssues @ [issue])
                (setType IssueTypeObjective issue h)
         else if hasParent
         then identifyLoop parentChildMap rest parentIssues (setType IssueTypeKeyResult issue h)
         else identifyLoop parentChildMap rest parentIssues h)"

definition IdentifyObjectivesAndKeyResults ::
  "ptr list \<Rightarrow> childMap \<Rightarrow> heap \<Rightarrow> ptr list \<times> heap" where
  "IdentifyObjectivesAndKeyResults issues parentChildMap h =
     identifyLoop parentChildMap issues [] h"

definition commentsOrNone :: "string + WeeklyUpdate list \<Rightarrow> WeeklyUpdate list" where
  "commentsOrNone r = (case r of Inl err \<Rightarrow> [] | Inr updates \<Rightarrow> updates)"

text \<open>
  The loop over the children in \<open>processObjectiveWithChildren\<close>: the child is typed
  KeyResult through its pointer first; a child whose URL gives no owner or repository
  is skipped; the others are copied with their updates.
\<close>

fun processChildren ::
  "GitHubRepository \<Rightarrow> ptr list \<Rightarrow> IssueWithUpdates list \<Rightarrow> heap
     \<Rightarrow> IssueWithUpdates list \<times> heap" where
  "processChildren githubRepo [] acc h = (acc, h)"
| "processChildren githubRepo (child # rest) acc h =
     (let h1 = setType IssueTypeKeyResult child h in
      case ExtractOwnerRepoFromIssue githubRepo (h1 child) of
        (childOwner, childRepo) \<Rightarrow>
          if childOwner = [] \<or> childRepo = [] then processChildren githubRepo rest acc h1
          else
            let childUpdates =
                  commentsOrNone
                    (FetchIssueComments githubRepo childOwner childRepo (Number (h1 child)))
            in processChildren githubRepo rest
                 (acc @ [IssueWithUpdates (h1 child) (latestOf childUpdates) childUpdates []])
                 h1)"

definition processObjectiveWithChildren ::
  "GitHubRepository \<Rightarrow> ptr \<Rightarrow> ptr list \<Rightarrow> heap \<Rightarrow> (error + IssueWithUpdates) \<times> heap" where
  "processObjectiveWithChildren githubRepo objective children h =
     (case ExtractOwnerRepoFromIssue githubRepo (h objective) of
        (owner, repo) \<Rightarrow>
          if owner = [] \<or> repo = [] then (Inl (ErrNoOwnerRepo (Number (h objective))), h)
          else
            let updates =
                  commentsOrNone (FetchIssueComments githubRepo owner repo (Number (h objective)));
                objectiveIssue = h objective
            in case processChildren githubRepo children [] h of
                 (childIssues, h') \<Rightarrow>
                   (Inr (IssueWithUpdates objectiveIssue (latestOf updates) updates childIssues),
                    h'))"

fun processObjectives ::
  "GitHubRepository \<Rightarrow> childMap \<Rightarrow> ptr list \<Rightarrow> IssueWithUpdates list \<Rightarrow> heap
     \<Rightarrow> IssueWithUpdates list \<times> heap" where
  "processObjectives githubRepo parentChildMap [] objectives h = (objectives, h)"
| "processObjectives githubRepo parentChildMap (objective # rest) objectives h =
     (let children = childrenOf parentChildMap (Number (h objective)) in
      case processObjectiveWithChildren githubRepo objective children h of
        (Inl err, h') \<Rightarrow> processObjectives githubRepo parentChildMap rest objectives h'
      | (Inr objectiveWithUpdates, h') \<Rightarrow>
          processObjectives githubRepo parentChildMap rest
            (objectives @ [objectiveWithUpdates]) h')"

text \<open>The fallback loop: every filtered issue is typed Objective and becomes a parent.\<close>

fun treatAllAsObjectives :: "ptr list \<Rightarrow> ptr list \<Rightarrow> heap \<Rightarrow> ptr list \<times> heap" where
  "treatAllAsObjectives [] parentIssues h = (parentIssues, h)"
| "treatAllAsObjectives (issue # rest) parentIssues h =
     treatAllAsObjectives rest (parentIssues @ [issue]) (setType IssueTypeObjective issue h)"

definition ProcessOKRIssues ::
  "GitHubRepository \<Rightarrow> heap \<Rightarrow> ptr list \<Rightarrow> string list \<Rightarrow> IssueWithUpdates list \<times> heap" where
  "ProcessOKRIssues githubRepo h issues requiredLabels =
     (let filteredIssues = filterIssuesByLabels h issues requiredLabels in
      if length filteredIssues = 0 then ([], h)
      else
        let parentChildMap = BuildParentChildRelationships githubRepo h filteredIssues in
        case IdentifyObjectivesAndKeyResults filteredIssues parentChildMap h of
          (parentIssues, h1) \<Rightarrow>
            (case (if length parentIssues = 0
                   then treatAllAsObjectives filteredIssues parentIssues h1
                   else (parentIssues, h1)) of
               (parentIssues2, h2) \<Rightarrow>
                 processObjectives githubRepo parentChildMap parentIssues2 [] h2))"

text \<open>
  What the fallback makes of one issue that has no children: the issue typed Objective,
  kept when its URL gives an owner and a repository, with its own updates and no child.
\<close>

definition asObjective :: "Issue \<Rightarrow> Issue" where
  "asObjective i = i\<lparr>Type := IssueTypeObjective\<rparr>"



text \<open>Concrete issue sets for the resolver.\<close>

definition issueAt :: "int \<Rightarrow> string \<Rightarrow> string \<Rightarrow> Issue" where
  "issueAt n url body =
     \<lparr>Number = n, Title = ''Improve onboarding'', URL = url, Type = IssueTypeNone,
      Body = body, State = ''open'', Labels = [''okr'']\<rparr>"

definition noComments :: "string \<Rightarrow> string \<Rightarrow> int \<Rightarrow> string + WeeklyUpdate list" where
  "noComments owner repo issueNumber = Inr []"

definition selfReferenceHeap :: heap where
  "selfReferenceHeap =
     (\<lambda>p. issueAt 5 ''https://github.com/acme/okrs/issues/5'' ''Parent Issue: #5'')"




definition mixedHeap :: heap where
  "mixedHeap =
     (\<lambda>p. if p = 0 then issueAt 3 ''https://github.com/acme/okrs/issues/3'' ''Part of #7''
          else issueAt 7 ''https://github.com/acme/okrs/issues/7'' ''child of #7'')"

section \<open>The comment parser\<close>

text \<open>
  A raw comment of the client library: body, author login and creation date are
  pointers that may be nil (the login also when the user is nil). The creation time is
  kept as its \<open>2006-01-02\<close> rendering.
\<close>

record RawComment =
  commentBody :: "string option"
  commentLogin :: "string option"
  commentCreatedAt :: "string option"

definition weeklyUpdatePattern :: "tok list" where
  "weeklyUpdatePattern = [Fold ''weekly'', Spaces1, Fold ''update'', Spaces1, CapDate]"

definition weeklyUpdateRegex :: "tok list" where
  "weeklyUpdateRegex = [Fold ''#'', Spaces, Fold ''weekly'', Spaces1, Fold ''update'', Spaces1, CapDate]"

text \<open>
  Go compares strings byte by byte; \<open>goLess s t\<close> is \<open>s < t\<close>. The comparison both
  sorts use is \<open>updates[i].Date > updates[j].Date\<close>.
\<close>

fun goLess :: "string \<Rightarrow> string \<Rightarrow> bool" where
  "goLess [] [] = False"
| "goLess [] (d # ds) = True"
| "goLess (c # cs) [] = False"
| "goLess (c # cs) (d # ds) =
     ((of_char c :: nat) < of_char d \<or> (c = d \<and> goLess cs ds))"

definition dateAfter :: "WeeklyUpdate \<Rightarrow> WeeklyUpdate \<Rightarrow> bool" where
  "dateAfter u v = goLess (Date v) (Date u)"

text \<open>
  The loop of \<open>convertGitHubCommentsToWeeklyUpdates\<close>: a comment with a nil field or
  without the pattern is skipped; the date is the capture group, or the creation date
  should the match carry no group.
\<close>

fun collectUpdates :: "(string \<Rightarrow> string) \<Rightarrow> RawComment list \<Rightarrow> WeeklyUpdate list" where
  "collectUpdates mapLower [] = []"
| "collectUpdates mapLower (comment # rest) =
     (case (commentBody comment, commentLogin comment, commentCreatedAt comment) of
        (Some body, Some login, Some createdAt) \<Rightarrow>
          (case FindStringSubmatch weeklyUpdatePattern body of
             None \<Rightarrow> collectUpdates mapLower rest
           | Some caps \<Rightarrow>
               \<lparr>Date = (case caps of d # ds \<Rightarrow> d | [] \<Rightarrow> createdAt), Content = body,
                Author = login, Status = detectStatusFromContent mapLower body\<rparr>
               # collectUpdates mapLower rest)
      | _ \<Rightarrow> collectUpdates mapLower rest)"

text \<open>
  \<open>sort.Slice\<close> belongs to the standard library; it is the parameter \<open>sortSlice\<close>,
  which takes the comparison and the slice and gives the slice after the call
  (\<open>None\<close> when the call does not return).
\<close>

type_synonym 'a sorter = "('a \<Rightarrow> 'a \<Rightarrow> bool) \<Rightarrow> 'a list \<Rightarrow> 'a list option"

definition convertGitHubCommentsToWeeklyUpdates ::
  "WeeklyUpdate sorter \<Rightarrow> (string \<Rightarrow> string) \<Rightarrow> RawComment list \<Rightarrow> WeeklyUpdate list option" where
  "convertGitHubCommentsToWeeklyUpdates sortSlice mapLower comments =
     sortSlice dateAfter (collectUpdates mapLower comments)"

text \<open>The same for the domain service, which reads comment texts.\<close>

fun extractUpdates :: "(string \<Rightarrow> string) \<Rightarrow> string list \<Rightarrow> WeeklyUpdate list" where
  "extractUpdates mapLower [] = []"
| "extractUpdates mapLower (comment # rest) =
     (case findAtLineStarts weeklyUpdateRegex True comment of
        Some (d # ds) \<Rightarrow>
          \<lparr>Date = d, Content = comment, Author = ''unknown'',
           Status = DetectStatusFromContent mapLower comment\<rparr>
          # extractUpdates mapLower rest
      | _ \<Rightarrow> extractUpdates mapLower rest)"

definition ExtractWeeklyUpdates ::
  "WeeklyUpdate sorter \<Rightarrow> (string \<Rightarrow> string) \<Rightarrow> string list \<Rightarrow> WeeklyUpdate list option" where
  "ExtractWeeklyUpdates sortSlice mapLower comments =
     sortSlice dateAfter (extractUpdates mapLower comments)"

text \<open>
  What the documentation of \<open>sort.Slice\<close> promises for a comparison: the call returns,
  the slice holds the same elements as before, and no element is less than one that
  stands before it. It does not promise to keep equal elements in their order.
\<close>

definition sortsBy :: "'a sorter \<Rightarrow> ('a \<Rightarrow> 'a \<Rightarrow> bool) \<Rightarrow> bool" where
  "sortsBy sortSlice lessFn =
     (\<forall>xs. \<exists>ys. sortSlice lessFn xs = Some ys \<and> mset ys = mset xs
                \<and> sorted_wrt (\<lambda>a b. \<not> lessFn b a) ys)"

text \<open>Descending by date: no update stands before one with a greater date.\<close>

definition descendingByDate :: "WeeklyUpdate list \<Rightarrow> bool" where
  "descendingByDate us = sorted_wrt (\<lambda>u v. \<not> goLess (Date u) (Date v)) us"

text \<open>
  Stability as the specification words it: updates of equal date keep their fetch
  order, that is, the result is the stable insertion of the fetched updates.
\<close>

fun insertStable :: "WeeklyUpdate \<Rightarrow> WeeklyUpdate list \<Rightarrow> WeeklyUpdate list" where
  "insertStable u [] = [u]"
| "insertStable u (v # vs) =
     (if dateAfter u v then u # v # vs else v # insertStable u vs)"

definition stableByDate :: "WeeklyUpdate list \<Rightarrow> WeeklyUpdate list" where
  "stableByDate us = foldl (\<lambda>acc u. insertStable u acc) [] us"

text \<open>An insertion sort in the role of \<open>sort.Slice\<close>.\<close>

fun insertBy :: "('a \<Rightarrow> 'a \<Rightarrow> bool) \<Rightarrow> 'a \<Rightarrow> 'a list \<Rightarrow> 'a list" where
  "insertBy lessFn x [] = [x]"
| "insertBy lessFn x (y # ys) = (if lessFn x y then x # y # ys else y # insertBy lessFn x ys)"

definition insertionSorter :: "'a sorter" where
  "insertionSorter lessFn xs = Some (foldl (\<lambda>acc x. insertBy lessFn x acc) [] xs)"

text \<open>
  \<open>sort.Slice\<close> as the Go release named in go.mod implements it (pattern-defeating
  quicksort, \<open>pdqsort_func\<close> of the standard library), on the slice as a list with
  index operations. The model follows the library on slices of fewer than 50 elements
  and as long as neither the heap-sort fallback nor the pattern breaking is reached;
  elsewhere, and when \<open>fuel\<close> runs out, it answers \<open>None\<close>. Slices of at most 12
  elements are sorted by insertion.
\<close>

definition swapAt :: "'a list \<Rightarrow> nat \<Rightarrow> nat \<Rightarrow> 'a list" where
  "swapAt data i j = (data[i := data ! j])[j := data ! i]"

fun shiftDown :: "('a \<Rightarrow> 'a \<Rightarrow> bool) \<Rightarrow> nat \<Rightarrow> nat \<Rightarrow> 'a list \<Rightarrow> 'a list" where
  "shiftDown lessFn a 0 data = data"
| "shiftDown lessFn a (Suc j) data =
     (if Suc j > a \<and> lessFn (data ! Suc j) (data ! j)
      then shiftDown lessFn a j (swapAt data (Suc j) j) else data)"

definition insertionSort_func :: "('a \<Rightarrow> 'a \<Rightarrow> bool) \<Rightarrow> 'a list \<Rightarrow> nat \<Rightarrow> nat \<Rightarrow> 'a list" where
  "insertionSort_func lessFn data a b = foldl (\<lambda>d i. shiftDown lessFn a i d) data [a + 1..<b]"

datatype sortedHint = unknownHint | increasingHint | decreasingHint

definition order2_func ::
  "('a \<Rightarrow> 'a \<Rightarrow> bool) \<Rightarrow> 'a list \<Rightarrow> nat \<Rightarrow> nat \<Rightarrow> nat \<Rightarrow> nat \<times> nat \<times> nat" where
  "order2_func lessFn data a b swaps =
     (if lessFn (data ! b) (data ! a) then (b, a, swaps + 1) else (a, b, swaps))"

definition median_func ::
  "('a \<Rightarrow> 'a \<Rightarrow> bool) \<Rightarrow> 'a list \<Rightarrow> nat \<Rightarrow> nat \<Rightarrow> nat \<Rightarrow> nat \<Rightarrow> nat \<times> nat" where
  "median_func lessFn data a b c swaps =
     (case order2_func lessFn data a b swaps of
        (a1, b1, s1) \<Rightarrow>
          (case order2_func lessFn data b1 c s1 of
             (b2, c2, s2) \<Rightarrow>
               (case order2_func lessFn data a1 b2 s2 of
                  (a3, b3, s3) \<Rightarrow> (b3, s3))))"

definition choosePivot_func ::
  "('a \<Rightarrow> 'a \<Rightarrow> bool) \<Rightarrow> 'a list \<Rightarrow> nat \<Rightarrow> nat \<Rightarrow> nat \<times> sortedHint" where
  "choosePivot_func lessFn data a b =
     (let l = b - a; i = a + l div 4 * 1; j = a + l div 4 * 2; k = a + l div 4 * 3 in
      if l \<ge> 8 then
        (case median_func lessFn data i j k 0 of
           (m, swaps) \<Rightarrow> (m, if swaps = 0 then increasingHint else unknownHint))
      else (j, increasingHint))"

definition partialInsertionSort_func ::
  "('a \<Rightarrow> 'a \<Rightarrow> bool) \<Rightarrow> 'a list \<Rightarrow> nat \<Rightarrow> nat \<Rightarrow> bool" where
  "partialInsertionSort_func lessFn data a b =
     list_all (\<lambda>i. \<not> lessFn (data ! i) (data ! (i - 1))) [a + 1..<b]"

fun scanUp :: "nat \<Rightarrow> ('a \<Rightarrow> bool) \<Rightarrow> 'a list \<Rightarrow> nat \<Rightarrow> nat \<Rightarrow> nat" where
  "scanUp 0 keep data i j = i"
| "scanUp (Suc n) keep data i j =
     (if i \<le> j \<and> keep (data ! i) then scanUp n keep data (i + 1) j else i)"

fun scanDown :: "('a \<Rightarrow> bool) \<Rightarrow> 'a list \<Rightarrow> nat \<Rightarrow> nat \<Rightarrow> nat" where
  "scanDown keep data i 0 = 0"
| "scanDown keep data i (Suc j) =
     (if i \<le> Suc j \<and> keep (data ! Suc j) then scanDown keep data i j else Suc j)"

fun partitionLoop ::
  "nat \<Rightarrow> ('a \<Rightarrow> 'a \<Rightarrow> bool) \<Rightarrow> 'a list \<Rightarrow> nat \<Rightarrow> nat \<Rightarrow> nat \<Rightarrow> 'a list \<times> nat" where
  "partitionLoop 0 lessFn data a i j = (data, j)"
| "partitionLoop (Suc n) lessFn data a i j =
     (let i1 = scanUp (length data) (\<lambda>x. lessFn x (data ! a)) data i j;
          j1 = scanDown (\<lambda>x. \<not> lessFn x (data ! a)) data i1 j
      in if i1 > j1 then (data, j1)
         else partitionLoop n lessFn (swapAt data i1 j1) a (i1 + 1) (j1 - 1))"

definition partition_func ::
  "('a \<Rightarrow> 'a \<Rightarrow> bool) \<Rightarrow> 'a list \<Rightarrow> nat \<Rightarrow> nat \<Rightarrow> nat \<Rightarrow> 'a list \<times> nat \<times> bool" where
  "partition_func lessFn data0 a b pivot =
     (let data = swapAt data0 a pivot;
          i = scanUp (length data) (\<lambda>x. lessFn x (data ! a)) data (a + 1) (b - 1);
          j = scanDown (\<lambda>x. \<not> lessFn x (data ! a)) data i (b - 1)
      in if i > j then (swapAt data j a, j, True)
         else (case partitionLoop (length data) lessFn (swapAt data i j) a (i + 1) (j - 1) of
                 (data2, j2) \<Rightarrow> (swapAt data2 j2 a, j2, False)))"

fun partitionEqualLoop ::
  "nat \<Rightarrow> ('a \<Rightarrow> 'a \<Rightarrow> bool) \<Rightarrow> 'a list \<Rightarrow> nat \<Rightarrow> nat \<Rightarrow> nat \<Rightarrow> 'a list \<times> nat" where
  "partitionEqualLoop 0 lessFn data a i j = (data, i)"
| "partitionEqualLoop (Suc n) lessFn data a i j =
     (let i1 = scanUp (length data) (\<lambda>x. \<not> lessFn (data ! a) x) data i j;
          j1 = scanDown (\<lambda>x. lessFn (data ! a) x) data i1 j
      in if i1 > j1 then (data, i1)
         else partitionEqualLoop n lessFn (swapAt data i1 j1) a (i1 + 1) (j1 - 1))"

definition partitionEqual_func ::
  "('a \<Rightarrow> 'a \<Rightarrow> bool) \<Rightarrow> 'a list \<Rightarrow> nat \<Rightarrow> nat \<Rightarrow> nat \<Rightarrow> 'a list \<times> nat" where
  "partitionEqual_func lessFn data0 a b pivot =
     partitionEqualLoop (length data0) lessFn (swapAt data0 a pivot) a (a + 1) (b - 1)"

fun pdqsort_func ::
  "nat \<Rightarrow> ('a \<Rightarrow> 'a \<Rightarrow> bool) \<Rightarrow> 'a list \<Rightarrow> nat \<Rightarrow> nat \<Rightarrow> nat \<Rightarrow> bool \<Rightarrow> bool
     \<Rightarrow> 'a list option" where
  "pdqsort_func 0 lessFn data a b limit wasBalanced wasPartitioned = None"
| "pdqsort_func (Suc fuel) lessFn data a b limit wasBalanced wasPartitioned =
     (if b - a \<le> 12 then Some (insertionSort_func lessFn data a b)
      else if limit = 0 then None
      else if \<not> wasBalanced then None
      else
        (case choosePivot_func lessFn data a b of
           (pivot, hint) \<Rightarrow>
             if wasBalanced \<and> wasPartitioned \<and> hint = increasingHint
                \<and> partialInsertionSort_func lessFn data a b
             then Some data
             else if a > 0 \<and> \<not> lessFn (data ! (a - 1)) (data ! pivot)
             then (case partitionEqual_func lessFn data a b pivot of
                     (data1, mid) \<Rightarrow>
                       pdqsort_func fuel lessFn data1 mid b limit wasBalanced wasPartitioned)
             else
               (case partition_func lessFn data a b pivot of
                  (data1, mid, alreadyPartitioned) \<Rightarrow>
                    if mid - a < b - mid
                    then (case pdqsort_func fuel lessFn data1 a mid limit True True of
                            None \<Rightarrow> None
                          | Some data2 \<Rightarrow>
                              pdqsort_func fuel lessFn data2 (mid + 1) b limit
                                (mid - a \<ge> (b - a) div 8) alreadyPartitioned)
                    else (case pdqsort_func fuel lessFn data1 (mid + 1) b limit True True of
                            None \<Rightarrow> None
                          | Some data2 \<Rightarrow>
                              pdqsort_func fuel lessFn data2 a mid limit
                                (b - mid \<ge> (b - a) div 8) alreadyPartitioned))))"

fun bitsLen :: "nat \<Rightarrow> nat" where
  "bitsLen n = (if n = 0 then 0 else Suc (bitsLen (n div 2)))"

definition goSortSlice :: "'a sorter" where
  "goSortSlice lessFn x =
     (if length x < 50
      then pdqsort_func (length x) lessFn x 0 (length x) (bitsLen (length x)) True True
      else None)"

text \<open>Comments that are weekly updates, for running the parser.\<close>

definition weeklyBody :: "string \<Rightarrow> string" where
  "weeklyBody date = ''Weekly update '' @ date @ '': on track''"

definition weeklyComment :: "string \<Rightarrow> string \<Rightarrow> RawComment" where
  "weeklyComment login date =
     \<lparr>commentBody = Some (weeklyBody date), commentLogin = Some login,
      commentCreatedAt = Some ''2025-08-01''\<rparr>"

definition weeklyUpdateOf :: "string \<Rightarrow> string \<Rightarrow> WeeklyUpdate" where
  "weeklyUpdateOf login date =
     \<lparr>Date = date, Content = weeklyBody date, Author = login, Status = StatusOnTrack\<rparr>"

definition thirteenComments :: "RawComment list" where
  "thirteenComments =
     [weeklyComment ''c00'' ''2025-07-09'',
      weeklyComment ''c01'' ''2025-07-16'',
      weeklyComment ''c02'' ''2025-07-09'',
      weeklyComment ''c03'' ''2025-07-16'',
      weeklyComment ''c04'' ''2025-07-16'',
      weeklyComment ''c05'' ''2025-07-16'',
      weeklyComment ''c06'' ''2025-07-01'',
      weeklyComment ''c07'' ''2025-07-16'',
      weeklyComment ''c08'' ''2025-07-16'',
      weeklyComment ''c09'' ''2025-06-15'',
      weeklyComment ''c10'' ''2025-06-15'',
      weeklyComment ''c11'' ''2025-06-15'',
      weeklyComment ''c12'' ''2025-06-15'']"

definition thirteenUpdates :: "WeeklyUpdate list" where
  "thirteenUpdates =
     [weeklyUpdateOf ''c00'' ''2025-07-09'',
      weeklyUpdateOf ''c01'' ''2025-07-16'',
      weeklyUpdateOf ''c02'' ''2025-07-09'',
      weeklyUpdateOf ''c03'' ''2025-07-16'',
      weeklyUpdateOf ''c04'' ''2025-07-16'',
      weeklyUpdateOf ''c05'' ''2025-07-16'',
      weeklyUpdateOf ''c06'' ''2025-07-01'',
      weeklyUpdateOf ''c07'' ''2025-07-16'',
      weeklyUpdateOf ''c08'' ''2025-07-16'',
      weeklyUpdateOf ''c09'' ''2025-06-15'',
      weeklyUpdateOf ''c10'' ''2025-06-15'',
      weeklyUpdateOf ''c11'' ''2025-06-15'',
      weeklyUpdateOf ''c12'' ''2025-06-15'']"

definition threeComments :: "RawComment list" where
  "threeComments =
     [weeklyComment ''ann'' ''2025-07-01'', weeklyComment ''bob'' ''2025-07-09'',
      weeklyComment ''cy'' ''2025-06-15'']"

definition plainNote :: string where
  "plainNote = ''Weekly Update 2025-07-09: shipped the API''"

section \<open>Status aggregation\<close>

text \<open>
  C3. For every objective issue with no children, \<open>GetObjectiveStatus\<close> returns exactly
  the status that \<open>GetKRStatus\<close> returns for that same issue, whatever its state and
  update history: both fall back to \<open>GetActualStatus\<close>.
\<close>

theorem objective_without_children_agrees_with_kr_status:
  assumes "IsObjective (Issue i)" and "ChildIssues i = []"
  shows "GetObjectiveStatus i = GetKRStatus i"
  using assms by (simp add: GetObjectiveStatus_def GetKRStatus_def IsObjective_def IsKeyResult_def)

lemmas status_eval_defs =
  GetObjectiveStatus_def GetKRStatus_def GetActualStatus_def GetLatestUpdateStatus_def
  IsObjective_def IsKeyResult_def leafIssue_def mkIssue_def mkUpdate_def latestOf_def
  zeroCounts_def

theorem objective_without_children_agrees_with_kr_status_witness:
  "IsObjective (Issue childlessObjective) \<and> ChildIssues childlessObjective = []
   \<and> GetObjectiveStatus childlessObjective = GetKRStatus childlessObjective
   \<and> GetKRStatus childlessObjective = StatusOnTrack"
  using objective_without_children_agrees_with_kr_status [of childlessObjective]
  by (simp add: childlessObjective_def status_eval_defs)

text \<open>
  C1. For an objective with children the specification resolves the children's statuses
  by strict priority with the majority rule "Completed-count at least ceil(total/2)".
  The code compares against \<open>totalKRs / 2\<close> in integer arithmetic instead: with one
  closed child and two open children without updates it answers OnTrack where the
  stated resolution answers Unknown, and with a single child of unknown status it
  answers OnTrack as well.
\<close>

theorem objective_status_majority_rounds_down:
  "GetObjectiveStatus oneOfThreeCompleted = StatusOnTrack
   \<and> map GetKRStatus (ChildIssues oneOfThreeCompleted)
       = [StatusCompleted, StatusUnknown, StatusUnknown]
   \<and> specObjectiveResolution (map GetKRStatus (ChildIssues oneOfThreeCompleted)) = StatusUnknown
   \<and> GetObjectiveStatus singleUnknownChild = StatusOnTrack
   \<and> specObjectiveResolution (map GetKRStatus (ChildIssues singleUnknownChild)) = StatusUnknown"
  by (simp add: oneOfThreeCompleted_def singleUnknownChild_def status_eval_defs
      specObjectiveResolution_def countCompleted_def)

theorem objective_status_majority_rounds_down_witness:
  "GetObjectiveStatus oneOfThreeCompleted
     \<noteq> specObjectiveResolution (map GetKRStatus (ChildIssues oneOfThreeCompleted))"
  using objective_status_majority_rounds_down by auto

lemma scanUpdates_find:
  "scanUpdates st us =
     (case find (\<lambda>u. Status u \<noteq> StatusUnknown) us of
        Some u \<Rightarrow> Some (if Status u = StatusCompleted \<and> st = ''open'' then StatusOnTrack
                        else Status u)
      | None \<Rightarrow> None)"
  by (induction us) auto

lemma find_none_head_unknown:
  "find (\<lambda>u. Status u \<noteq> StatusUnknown) us = None
   \<Longrightarrow> (case latestOf us of Some u \<Rightarrow> Status u | None \<Rightarrow> StatusUnknown) = StatusUnknown"
  by (cases us) (auto simp: latestOf_def split: if_splits)

text \<open>
  C2 (as amended). For every issue typed KeyResult whose latest update is the head of its
  update list, \<open>GetKRStatus\<close> is Completed when the state is closed; otherwise it is the
  status of the first update that is not Unknown, downgraded to OnTrack when that status
  is Completed and the state is open; and Unknown when no update has a recognised status.
  An issue that is not typed KeyResult is answered from its latest update alone.
\<close>

theorem key_result_status_scans_updates:
  assumes "IsKeyResult (Issue i)" and "LatestUpdate i = latestOf (AllUpdates i)"
  shows "GetKRStatus i = specKeyResultStatus (State (Issue i)) (AllUpdates i)"
proof (cases "find (\<lambda>u. Status u \<noteq> StatusUnknown) (AllUpdates i)")
  case None
  with assms find_none_head_unknown [OF None] show ?thesis
    by (simp add: GetKRStatus_def specKeyResultStatus_def scanUpdates_find
        GetLatestUpdateStatus_def)
next
  case (Some u)
  with assms show ?thesis
    by (simp add: GetKRStatus_def specKeyResultStatus_def scanUpdates_find)
qed

theorem key_result_status_scans_updates_witness:
  "IsKeyResult (Issue krWithLateStatus)
   \<and> LatestUpdate krWithLateStatus = latestOf (AllUpdates krWithLateStatus)
   \<and> GetKRStatus krWithLateStatus
       = specKeyResultStatus (State (Issue krWithLateStatus)) (AllUpdates krWithLateStatus)
   \<and> GetKRStatus krWithLateStatus = StatusOnTrack"
  using key_result_status_scans_updates [of krWithLateStatus]
  by (simp add: krWithLateStatus_def status_eval_defs)

theorem key_result_status_of_objective_counterexample:
  "GetKRStatus objectiveWithLateStatus = StatusUnknown
   \<and> specKeyResultStatus (State (Issue objectiveWithLateStatus))
        (AllUpdates objectiveWithLateStatus) = StatusBlocked"
  by (simp add: objectiveWithLateStatus_def status_eval_defs specKeyResultStatus_def)

section \<open>Status detection from comment text\<close>





lemma plainNote_facts:
  "\<not> svcCompletionIndicator (ToLower lowerCaseless plainNote)"
  "\<not> svcBlockedIndicator (ToLower lowerCaseless plainNote)"
  "\<not> svcAtRiskIndicator (ToLower lowerCaseless plainNote)"
  "\<not> svcOnTrackIndicator (ToLower lowerCaseless plainNote)"
  by code_simp+

text \<open>
  C10. The domain service's \<open>DetectStatusFromContent\<close> never returns Unknown, whatever
  the content: its result is Completed, Blocked, AtRisk or OnTrack, and when none of the
  completion, blocked, at-risk and on-track indicators matches, it is the default OnTrack.
\<close>

theorem service_detect_never_unknown:
  "DetectStatusFromContent mapLower content \<noteq> StatusUnknown
   \<and> DetectStatusFromContent mapLower content
        \<in> {StatusCompleted, StatusBlocked, StatusAtRisk, StatusOnTrack}
   \<and> (\<not> svcCompletionIndicator (ToLower mapLower content)
        \<and> \<not> svcBlockedIndicator (ToLower mapLower content)
        \<and> \<not> svcAtRiskIndicator (ToLower mapLower content)
        \<and> \<not> svcOnTrackIndicator (ToLower mapLower content)
        \<longrightarrow> DetectStatusFromContent mapLower content = StatusOnTrack)"
  by (simp add: DetectStatusFromContent_def Let_def)

theorem service_detect_never_unknown_witness:
  "\<not> svcCompletionIndicator (ToLower lowerCaseless plainNote)
   \<and> \<not> svcOnTrackIndicator (ToLower lowerCaseless plainNote)
   \<and> DetectStatusFromContent lowerCaseless plainNote = StatusOnTrack"
  using service_detect_never_unknown [of lowerCaseless plainNote] plainNote_facts
  by simp

section \<open>Retry and pagination\<close>

declare retryFrom.simps [simp del]









text \<open>
  C8. The search stops when no page follows or when, after a page that has a successor,
  more issues than the configured maximum have been collected; the collected list is
  returned whole. With a maximum of 2 and pages of two issues each, the first page
  reaches the maximum, yet a second page is fetched and four issues are returned; a
  single page of three issues is returned whole as well.
\<close>

theorem fetch_issues_exceeds_maximum:
  "configuredMaxIssues (config cappedClient) = 2
   \<and> map_option (\<lambda>r. (fst r, snd (snd r)))
        (fetchIssuesBySearchQuery 10 lowerCaseless (pagedRemote threePages)
           ''o'' ''r'' ''is:issue'' cappedClient 0)
     = Some (Inr [1, 2, 3, 4], 2)
   \<and> map_option fst
        (fetchIssuesBySearchQuery 10 lowerCaseless (pagedRemote [[1, 2, 3]])
           ''o'' ''r'' ''is:issue'' cappedClient 0)
     = Some (Inr [1, 2, 3])"
  by code_simp

theorem fetch_issues_exceeds_maximum_witness:
  "map_option fst
     (fetchIssuesBySearchQuery 10 lowerCaseless (pagedRemote [[1, 2, 3]])
        ''o'' ''r'' ''is:issue'' cappedClient 0)
   \<noteq> Some (Inr [1, 2])"
  unfolding fetch_issues_exceeds_maximum [THEN conjunct2, THEN conjunct2] by simp

section \<open>Hierarchy resolution\<close>

lemma childrenOf_upd:
  "childrenOf (m(n \<mapsto> ps)) k = (if k = n then ps else childrenOf m k)"
  by (simp add: childrenOf_def)

lemma buildRelationships_keeps:
  "p \<in> set (childrenOf m n) \<Longrightarrow> p \<in> set (childrenOf (buildRelationships repo h issues m) n)"
proof (induction issues arbitrary: m)
  case Nil
  then show ?case by simp
next
  case (Cons q qs)
  let ?k = "parentNumberOf repo (h q)"
  let ?m1 = "if ?k > 0 then m(?k \<mapsto> childrenOf m ?k @ [q]) else m"
  have "p \<in> set (childrenOf ?m1 n)"
    using Cons.prems by (auto simp add: childrenOf_upd)
  from Cons.IH [OF this] show ?case
    by (simp add: Let_def)
qed

lemma buildRelationships_records:
  "p \<in> set issues \<Longrightarrow> parentNumberOf repo (h p) = n \<Longrightarrow> n > 0
   \<Longrightarrow> p \<in> set (childrenOf (buildRelationships repo h issues m) n)"
proof (induction issues arbitrary: m)
  case Nil
  then show ?case by simp
next
  case (Cons q qs)
  show ?case
  proof (cases "q = p")
    case True
    have "p \<in> set (childrenOf (m(n \<mapsto> childrenOf m n @ [p])) n)"
      by (simp add: childrenOf_upd)
    from buildRelationships_keeps [OF this, of repo h qs] True Cons.prems show ?thesis
      by (simp add: Let_def)
  next
    case False
    with Cons.prems have "p \<in> set qs" by simp
    from Cons.IH [of "if parentNumberOf repo (h q) > 0
                      then m(parentNumberOf repo (h q) \<mapsto>
                             childrenOf m (parentNumberOf repo (h q)) @ [q]) else m",
                  OF this Cons.prems(2,3)]
    show ?thesis
      by (simp add: Let_def)
  qed
qed

lemma parentNumberOf_text:
  "extractParentIssueNumber i \<noteq> 0 \<Longrightarrow> parentNumberOf repo i = extractParentIssueNumber i"
  by (simp add: parentNumberOf_def Let_def)

lemma hasParentIssue_setType [simp]:
  "hasParentIssue (i\<lparr>Type := ty\<rparr>) = hasParentIssue i"
  by (simp add: hasParentIssue_def extractParentIssueNumber_def)

lemma identifyLoop_parent:
  "hasParentIssue (h p) \<Longrightarrow> p \<notin> set acc
   \<Longrightarrow> Type (h p) = IssueTypeKeyResult \<or> p \<in> set issues
   \<Longrightarrow> identifyLoop m issues acc h = (parents, h')
   \<Longrightarrow> (p \<in> set issues \<longrightarrow> Type (h' p) = IssueTypeKeyResult) \<and> p \<notin> set parents
       \<and> hasParentIssue (h' p)
       \<and> (Type (h p) = IssueTypeKeyResult \<longrightarrow> Type (h' p) = IssueTypeKeyResult)"
proof (induction issues arbitrary: acc h)
  case Nil
  then show ?case by simp
next
  case (Cons q qs)
  show ?case
  proof (cases "q = p")
    case True
    from Cons.prems(4) True Cons.prems(1)
    have run: "identifyLoop m qs acc (setType IssueTypeKeyResult p h) = (parents, h')"
      by (simp add: Let_def)
    have "hasParentIssue (setType IssueTypeKeyResult p h p)"
         "Type (setType IssueTypeKeyResult p h p) = IssueTypeKeyResult"
      using Cons.prems(1) by (simp_all add: setType_def)
    from Cons.IH [OF this(1) Cons.prems(2) disjI1 [OF this(2)] run] this(2) True
    show ?thesis by simp
  next
    case False
    let ?h1 = "if length (childrenOf m (Number (h q))) > 0 \<and> \<not> hasParentIssue (h q)
               then setType IssueTypeObjective q h
               else if hasParentIssue (h q) then setType IssueTypeKeyResult q h else h"
    let ?acc1 = "if length (childrenOf m (Number (h q))) > 0 \<and> \<not> hasParentIssue (h q)
               then acc @ [q] else acc"
    have same: "?h1 p = h p" using False by (simp add: setType_def)
    from Cons.prems(4) have run: "identifyLoop m qs ?acc1 ?h1 = (parents, h')"
      by (simp add: Let_def split: if_splits)
    have a: "hasParentIssue (?h1 p)" using same Cons.prems(1) by simp
    have b: "p \<notin> set ?acc1" using False Cons.prems(2) by simp
    have c: "Type (?h1 p) = IssueTypeKeyResult \<or> p \<in> set qs"
      using same Cons.prems(3) False by auto
    from Cons.IH [OF a b c run] same False show ?thesis by auto
  qed
qed

text \<open>
  C6 (as amended). The resolver has no rule for a reference to the issue itself: an
  issue whose title and body name its own number as the parent is recorded under that
  number in the parent-child map, so it is its own child there; it counts as having a
  parent, is typed KeyResult by the classification and is not among the Objectives the
  classification returns.
\<close>

theorem self_reference_is_recorded:
  assumes "p \<in> set issues"
    and "extractParentIssueNumber (h p) = Number (h p)"
    and "Number (h p) > 0"
  shows "p \<in> set (childrenOf (BuildParentChildRelationships repo h issues) (Number (h p)))
         \<and> hasParentIssue (h p)
         \<and> Type (snd (IdentifyObjectivesAndKeyResults issues
                        (BuildParentChildRelationships repo h issues) h) p) = IssueTypeKeyResult
         \<and> p \<notin> set (fst (IdentifyObjectivesAndKeyResults issues
                            (BuildParentChildRelationships repo h issues) h))"
proof -
  from assms have hp: "hasParentIssue (h p)" by (simp add: hasParentIssue_def)
  from assms have "parentNumberOf repo (h p) = Number (h p)"
    using parentNumberOf_text [of "h p" repo] by simp
  from buildRelationships_records [of p issues repo h "Number (h p)" Map.empty] assms(1,3) this
  have rec: "p \<in> set (childrenOf (BuildParentChildRelationships repo h issues) (Number (h p)))"
    by (simp add: BuildParentChildRelationships_def)
  obtain parents h' where run:
    "identifyLoop (BuildParentChildRelationships repo h issues) issues [] h = (parents, h')"
    by (cases "identifyLoop (BuildParentChildRelationships repo h issues) issues [] h")
  from identifyLoop_parent [OF hp _ disjI2 [OF assms(1)] run] assms(1)
  have "Type (h' p) = IssueTypeKeyResult" "p \<notin> set parents" by simp_all
  with rec hp run show ?thesis
    by (simp add: IdentifyObjectivesAndKeyResults_def)
qed


theorem self_reference_is_recorded_witness:
  "(1::nat) \<in> set [0, 1]
   \<and> extractParentIssueNumber (mixedHeap 1) = Number (mixedHeap 1)
   \<and> Number (mixedHeap 1) > 0
   \<and> 1 \<in> set (childrenOf (BuildParentChildRelationships (Repository noComments) mixedHeap [0, 1])
                  (Number (mixedHeap 1)))
   \<and> hasParentIssue (mixedHeap 1)
   \<and> Type (snd (IdentifyObjectivesAndKeyResults [0, 1]
                  (BuildParentChildRelationships (Repository noComments) mixedHeap [0, 1])
                  mixedHeap) 1) = IssueTypeKeyResult"
proof -
  have a: "(1::nat) \<in> set [0, 1]" by simp
  have b: "extractParentIssueNumber (mixedHeap 1) = Number (mixedHeap 1)" by code_simp
  have c: "Number (mixedHeap 1) > 0" by code_simp
  from self_reference_is_recorded [of 1 "[0, 1]" mixedHeap "Repository noComments"] a b c
  show ?thesis by simp
qed

theorem self_reference_counterexample:
  "extractParentIssueNumber (selfReferenceHeap 0) = 5
   \<and> Number (selfReferenceHeap 0) = 5
   \<and> childrenOf (BuildParentChildRelationships (Repository noComments) selfReferenceHeap [0]) 5
       = [0]
   \<and> Type (snd (IdentifyObjectivesAndKeyResults [0]
                  (BuildParentChildRelationships (Repository noComments) selfReferenceHeap [0])
                  selfReferenceHeap) 0) = IssueTypeKeyResult
   \<and> map (\<lambda>objective. map (\<lambda>child. Number (Issue child)) (ChildIssues objective))
        (fst (ProcessOKRIssues (Repository noComments) selfReferenceHeap [0] [''okr'']))
       = [[5]]"
  by code_simp




lemma asObjective_idem [simp]: "asObjective (asObjective i) = asObjective i"
  by (simp add: asObjective_def)









section \<open>Ordering of the weekly updates\<close>

lemma goLess_irrefl: "\<not> goLess s s"
  by (induction s) auto

lemma goLess_trans: "goLess s t \<Longrightarrow> goLess t u \<Longrightarrow> goLess s u"
proof (induction s t arbitrary: u rule: goLess.induct)
  case 1
  then show ?case by simp
next
  case (2 d ds)
  then show ?case by (cases u) simp_all
next
  case (3 c cs)
  then show ?case by simp
next
  case (4 c cs d ds)
  show ?case
  proof (cases u)
    case Nil
    with 4 show ?thesis by simp
  next
    case (Cons e es)
    with "4.prems" "4.IH" [of es] show ?thesis
      by (auto simp add: less_trans)
  qed
qed

lemma dateAfter_asym: "dateAfter a b \<Longrightarrow> \<not> dateAfter b a"
  unfolding dateAfter_def
  using goLess_trans [of "Date b" "Date a" "Date b"] goLess_irrefl [of "Date b"] by blast

lemma dateAfter_trans: "dateAfter a b \<Longrightarrow> dateAfter b c \<Longrightarrow> dateAfter a c"
  unfolding dateAfter_def
  using goLess_trans [of "Date c" "Date b" "Date a"] by blast

lemma insertBy_mset: "mset (insertBy lessFn x ys) = add_mset x (mset ys)"
  by (induction ys) simp_all

lemma insertBy_set: "set (insertBy lessFn x ys) = insert x (set ys)"
  by (induction ys) auto


lemma insertBy_sorted:
  assumes asym: "\<And>a b. lessFn a b \<Longrightarrow> \<not> lessFn b a"
    and trans: "\<And>a b c. lessFn a b \<Longrightarrow> lessFn b c \<Longrightarrow> lessFn a c"
  shows "sorted_wrt (\<lambda>a b. \<not> lessFn b a) ys
         \<Longrightarrow> sorted_wrt (\<lambda>a b. \<not> lessFn b a) (insertBy lessFn x ys)"
proof (induction ys)
  case Nil
  then show ?case by simp
next
  case (Cons y ys)
  from Cons.prems have tail: "sorted_wrt (\<lambda>a b. \<not> lessFn b a) ys"
    and head: "\<forall>z\<in>set ys. \<not> lessFn z y" by simp_all
  show ?case
  proof (cases "lessFn x y")
    case True
    have "\<not> lessFn z x" if "z \<in> set ys" for z
    proof
      assume "lessFn z x"
      from trans [OF this True] head that show False by simp
    qed
    moreover have "\<not> lessFn y x" using asym [OF True] .
    ultimately show ?thesis using True tail head by simp
  next
    case False
    from Cons.IH [OF tail] have "sorted_wrt (\<lambda>a b. \<not> lessFn b a) (insertBy lessFn x ys)" .
    with False head show ?thesis by (simp add: insertBy_set)
  qed
qed

lemma foldl_insertBy:
  assumes asym: "\<And>a b. lessFn a b \<Longrightarrow> \<not> lessFn b a"
    and trans: "\<And>a b c. lessFn a b \<Longrightarrow> lessFn b c \<Longrightarrow> lessFn a c"
  shows "sorted_wrt (\<lambda>a b. \<not> lessFn b a) acc
         \<Longrightarrow> sorted_wrt (\<lambda>a b. \<not> lessFn b a) (foldl (\<lambda>acc x. insertBy lessFn x acc) acc xs)
             \<and> mset (foldl (\<lambda>acc x. insertBy lessFn x acc) acc xs) = mset acc + mset xs"
proof (induction xs arbitrary: acc)
  case Nil
  then show ?case by simp
next
  case (Cons x xs)
  have "sorted_wrt (\<lambda>a b. \<not> lessFn b a) (insertBy lessFn x acc)"
    using insertBy_sorted [of lessFn acc x] asym trans Cons.prems by blast
  from Cons.IH [OF this] show ?case by (simp add: insertBy_mset)
qed

lemma insertionSorter_sortsBy: "sortsBy insertionSorter dateAfter"
proof -
  have "sorted_wrt (\<lambda>a b. \<not> dateAfter b a) (foldl (\<lambda>acc x. insertBy dateAfter x acc) [] xs)
        \<and> mset (foldl (\<lambda>acc x. insertBy dateAfter x acc) [] xs) = mset xs" for xs
    using foldl_insertBy [of dateAfter "[]" xs] dateAfter_asym dateAfter_trans
    by (metis add_0 mset.simps(1) sorted_wrt.simps(1))
  then show ?thesis
    by (simp add: sortsBy_def insertionSorter_def)
qed


lemma sortsBy_descending:
  assumes "sortsBy sortSlice dateAfter"
  shows "\<exists>ys. sortSlice dateAfter xs = Some ys \<and> descendingByDate ys \<and> mset ys = mset xs"
proof -
  from assms have "\<exists>ys. sortSlice dateAfter xs = Some ys \<and> mset ys = mset xs
      \<and> sorted_wrt (\<lambda>a b. \<not> dateAfter b a) ys"
    unfolding sortsBy_def by (rule allE)
  then obtain ys where ys: "sortSlice dateAfter xs = Some ys" "mset ys = mset xs"
      "sorted_wrt (\<lambda>a b. \<not> dateAfter b a) ys"
    by (elim exE conjE)
  from ys(3) have "descendingByDate ys"
    by (simp add: descendingByDate_def dateAfter_def)
  with ys(1,2) show ?thesis by (intro exI conjI)
qed

lemma weekly_bodies:
  "FindStringSubmatch weeklyUpdatePattern (weeklyBody ''2025-07-16'') = Some [''2025-07-16'']"
  "FindStringSubmatch weeklyUpdatePattern (weeklyBody ''2025-07-09'') = Some [''2025-07-09'']"
  "FindStringSubmatch weeklyUpdatePattern (weeklyBody ''2025-07-01'') = Some [''2025-07-01'']"
  "FindStringSubmatch weeklyUpdatePattern (weeklyBody ''2025-06-15'') = Some [''2025-06-15'']"
  by code_simp+

lemma weekly_statuses:
  "detectStatusFromContent lowerCaseless (weeklyBody ''2025-07-16'') = StatusOnTrack"
  "detectStatusFromContent lowerCaseless (weeklyBody ''2025-07-09'') = StatusOnTrack"
  "detectStatusFromContent lowerCaseless (weeklyBody ''2025-07-01'') = StatusOnTrack"
  "detectStatusFromContent lowerCaseless (weeklyBody ''2025-06-15'') = StatusOnTrack"
  by code_simp+

lemma collectUpdates_weekly:
  "FindStringSubmatch weeklyUpdatePattern (weeklyBody d) = Some [d]
   \<Longrightarrow> detectStatusFromContent m (weeklyBody d) = StatusOnTrack
   \<Longrightarrow> collectUpdates m (weeklyComment a d # rest) = weeklyUpdateOf a d # collectUpdates m rest"
  by (simp add: weeklyComment_def weeklyUpdateOf_def)

lemma thirteen_collected:
  "collectUpdates lowerCaseless thirteenComments = thirteenUpdates"
  by (simp add: thirteenComments_def thirteenUpdates_def collectUpdates_weekly
      weekly_bodies weekly_statuses del: collectUpdates.simps(2))

lemma three_collected:
  "collectUpdates lowerCaseless threeComments
     = [weeklyUpdateOf ''ann'' ''2025-07-01'', weeklyUpdateOf ''bob'' ''2025-07-09'',
        weeklyUpdateOf ''cy'' ''2025-06-15'']"
  by (simp add: threeComments_def collectUpdates_weekly weekly_bodies weekly_statuses
      del: collectUpdates.simps(2))

lemma three_sorted:
  "map_option (map Date)
     (insertionSorter dateAfter
        [weeklyUpdateOf ''ann'' ''2025-07-01'', weeklyUpdateOf ''bob'' ''2025-07-09'',
         weeklyUpdateOf ''cy'' ''2025-06-15''])
     = Some [''2025-07-09'', ''2025-07-01'', ''2025-06-15'']"
  by code_simp

lemma thirteen_sorted:
  "map_option (map Author) (goSortSlice dateAfter thirteenUpdates)
     = Some [''c08'', ''c01'', ''c03'', ''c04'', ''c05'', ''c07'', ''c02'', ''c00'', ''c06'',
             ''c09'', ''c10'', ''c11'', ''c12'']"
  by code_simp

lemma thirteen_stable:
  "map Author (stableByDate thirteenUpdates)
     = [''c01'', ''c03'', ''c04'', ''c05'', ''c07'', ''c08'', ''c00'', ''c02'', ''c06'',
        ''c09'', ''c10'', ''c11'', ''c12'']"
  by code_simp

lemma thirteen_dates:
  "map Date thirteenUpdates
     = [''2025-07-09'', ''2025-07-16'', ''2025-07-09'', ''2025-07-16'', ''2025-07-16'',
        ''2025-07-16'', ''2025-07-01'', ''2025-07-16'', ''2025-07-16'', ''2025-06-15'',
        ''2025-06-15'', ''2025-06-15'', ''2025-06-15'']"
  by (simp add: thirteenUpdates_def weeklyUpdateOf_def)

text \<open>
  C5 (as amended). Whenever \<open>sort.Slice\<close> does what its documentation promises, the
  list of weekly updates produced from a list of raw comments holds exactly the
  updates of the qualifying comments and is sorted descending by date: no update stands
  before one whose date string is greater. The same holds for the domain service's
  \<open>ExtractWeeklyUpdates\<close>. Nothing is promised about the order of updates with equal
  dates: \<open>sort.Slice\<close> is not a stable sort.
\<close>

theorem weekly_updates_sorted_descending:
  assumes "sortsBy sortSlice dateAfter"
  shows "(\<exists>updates. convertGitHubCommentsToWeeklyUpdates sortSlice mapLower comments = Some updates
            \<and> descendingByDate updates
            \<and> mset updates = mset (collectUpdates mapLower comments))
         \<and> (\<exists>updates. ExtractWeeklyUpdates sortSlice mapLower texts = Some updates
            \<and> descendingByDate updates
            \<and> mset updates = mset (extractUpdates mapLower texts))"
  unfolding convertGitHubCommentsToWeeklyUpdates_def ExtractWeeklyUpdates_def
  using sortsBy_descending [OF assms] by (intro conjI)

theorem weekly_updates_sorted_descending_witness:
  "sortsBy insertionSorter dateAfter
   \<and> map_option (map Date)
        (convertGitHubCommentsToWeeklyUpdates insertionSorter lowerCaseless threeComments)
       = Some [''2025-07-09'', ''2025-07-01'', ''2025-06-15'']
   \<and> (\<exists>updates. convertGitHubCommentsToWeeklyUpdates insertionSorter lowerCaseless threeComments
          = Some updates \<and> descendingByDate updates)"
proof -
  have "map_option (map Date)
        (convertGitHubCommentsToWeeklyUpdates insertionSorter lowerCaseless threeComments)
       = Some [''2025-07-09'', ''2025-07-01'', ''2025-06-15'']"
    by (simp only: convertGitHubCommentsToWeeklyUpdates_def three_collected three_sorted)
  with weekly_updates_sorted_descending [OF insertionSorter_sortsBy, of lowerCaseless threeComments "[]"]
       insertionSorter_sortsBy
  show ?thesis by blast
qed

theorem sort_slice_not_stable_counterexample:
  "map_option (map Author)
     (convertGitHubCommentsToWeeklyUpdates goSortSlice lowerCaseless thirteenComments)
     = Some [''c08'', ''c01'', ''c03'', ''c04'', ''c05'', ''c07'', ''c02'', ''c00'', ''c06'',
             ''c09'', ''c10'', ''c11'', ''c12'']
   \<and> map Author (stableByDate (collectUpdates lowerCaseless thirteenComments))
     = [''c01'', ''c03'', ''c04'', ''c05'', ''c07'', ''c08'', ''c00'', ''c02'', ''c06'',
        ''c09'', ''c10'', ''c11'', ''c12'']
   \<and> map Date (collectUpdates lowerCaseless thirteenComments)
     = [''2025-07-09'', ''2025-07-16'', ''2025-07-09'', ''2025-07-16'', ''2025-07-16'',
        ''2025-07-16'', ''2025-07-01'', ''2025-07-16'', ''2025-07-16'', ''2025-06-15'',
        ''2025-06-15'', ''2025-06-15'', ''2025-06-15'']"
  by (simp only: convertGitHubCommentsToWeeklyUpdates_def thirteen_collected thirteen_sorted
      thirteen_stable thirteen_dates simp_thms)

end
